theory Spec2Isabelle
  imports Complex_Main "HOL-Library.Sublist" "HOL-Library.AList"
begin

section \<open>Python values, exceptions and string operations\<close>

text \<open>
  The exceptions the modelled code can raise. \<open>AbortingTest\<close> is the exception of
  \<^verbatim>\<open>Logger.logError\<close> (\<^verbatim>\<open>raise Exception(f'Aborting test: {msg}')\<close>); \<open>ReError\<close> is
  \<^verbatim>\<open>re.error\<close>. Python floats are modelled by the rationals they denote (every finite
  float is one, and comparison of finite floats is comparison of rationals).
\<close>

datatype py_error =
    KeyError | IndexError | ValueError | TypeError | UnboundLocalError
  | AssertionError | ReError | OSError | AbortingTest

text \<open>\<^verbatim>\<open>xs[i]\<close> for a non-negative literal index.\<close>

definition item :: "'a list \<Rightarrow> nat \<Rightarrow> py_error + 'a" where
  "item xs i = (if i < length xs then Inr (xs ! i) else Inl IndexError)"

text \<open>\<^verbatim>\<open>sub in s\<close> on strings.\<close>

fun contains :: "string \<Rightarrow> string \<Rightarrow> bool" where
  "contains sub [] = (sub = [])"
| "contains sub (c # cs) = (prefix sub (c # cs) \<or> contains sub cs)"

text \<open>
  \<^verbatim>\<open>s.split(sep)\<close> for a non-empty separator: the pieces between the non-overlapping
  occurrences of \<open>sep\<close>, found from the left. (Python raises on an empty separator; the
  code only splits on literals.)
\<close>

function split :: "string \<Rightarrow> string \<Rightarrow> string list" where
  "split sep [] = [[]]"
| "split sep (c # cs) =
     (if sep \<noteq> [] \<and> prefix sep (c # cs)
      then [] # split sep (drop (length sep - 1) cs)
      else (case split sep cs of
              [] \<Rightarrow> [[c]]
            | w # ws \<Rightarrow> (c # w) # ws))"
  by pat_completeness auto
termination
  by (relation "measure (\<lambda>(sep, s). length s)") auto

text \<open>
  \<^verbatim>\<open>s.strip()\<close>: the characters for which \<^verbatim>\<open>str.isspace\<close> holds are removed at both ends. A
  string is a list of characters with code points below 256; in that range
  \<^verbatim>\<open>str.isspace\<close> holds for the space, U+0009 to U+000D, U+001C to U+001F, U+0085 (next
  line) and U+00A0 (no-break space).
\<close>

definition is_space :: "char \<Rightarrow> bool" where
  "is_space c = (c \<in> set [CHR '' '', CHR 0x09, CHR 0x0A, CHR 0x0B, CHR 0x0C, CHR 0x0D,
                           CHR 0x1C, CHR 0x1D, CHR 0x1E, CHR 0x1F, CHR 0x85, CHR 0xA0])"

definition strip :: "string \<Rightarrow> string" where
  "strip s = rev (dropWhile is_space (rev (dropWhile is_space s)))"

text \<open>\<^verbatim>\<open>xs.index(x)\<close>: the first position of an equal element.\<close>

fun index_from :: "'a list \<Rightarrow> 'a \<Rightarrow> nat \<Rightarrow> nat option" where
  "index_from [] x n = None"
| "index_from (y # ys) x n = (if y = x then Some n else index_from ys x (Suc n))"

definition index_of :: "'a list \<Rightarrow> 'a \<Rightarrow> nat option" where
  "index_of xs x = index_from xs x 0"

section \<open>The KPI tracker (\<^verbatim>\<open>Main.createKpiTracker\<close>)\<close>

text \<open>
  An entry of the tracker: the dictionary with the keys \<^verbatim>\<open>result\<close>, \<^verbatim>\<open>expectedValue\<close> and
  \<^verbatim>\<open>maxValue\<close> (the fields carry the prefix \<open>kpi_\<close>; \<open>None\<close> is Python's \<^verbatim>\<open>None\<close>).
\<close>

record kpi_entry =
  kpi_result :: "string option"
  kpi_expectedValue :: "string option"
  kpi_maxValue :: "rat option"

definition empty_entry :: kpi_entry where
  "empty_entry = \<lparr>kpi_result = None, kpi_expectedValue = None, kpi_maxValue = None\<rparr>"

type_synonym stat_tracker = "string \<rightharpoonup> kpi_entry"
type_synonym kpi_tracker = "string \<rightharpoonup> stat_tracker"

text \<open>
  Lines 1839-1850: the value of the local \<open>kpi\<close> after the \<^verbatim>\<open>if/elif\<close> chain. When no
  branch applies the variable keeps the value of the previous iteration (\<open>prev\<close>).
\<close>

definition tracker_kpi :: "string \<Rightarrow> string option \<Rightarrow> py_error + string option" where
  "tracker_kpi kpiKeyValue prev =
     (if contains ''<='' kpiKeyValue then map_sum id Some (item (split ''<='' kpiKeyValue) 0)
      else if contains ''>='' kpiKeyValue then map_sum id Some (item (split ''>='' kpiKeyValue) 0)
      else if contains ''<'' kpiKeyValue then map_sum id Some (item (split ''<'' kpiKeyValue) 0)
      else if contains ''>'' kpiKeyValue then map_sum id Some (item (split ''>'' kpiKeyValue) 0)
      else if contains ''=='' kpiKeyValue then map_sum id Some (item (split ''=='' kpiKeyValue) 0)
      else if contains ''='' kpiKeyValue then map_sum id Some (item (split ''='' kpiKeyValue) 0)
      else Inr prev)"

text \<open>Lines 1838-1852: the loop over the KPI expressions of one stat name.\<close>

fun createKpiTracker_kpis ::
  "string list \<Rightarrow> string option \<Rightarrow> stat_tracker \<Rightarrow> py_error + (string option \<times> stat_tracker)" where
  "createKpiTracker_kpis [] kpi tr = Inr (kpi, tr)"
| "createKpiTracker_kpis (kpiKeyValue # rest) kpi tr =
     (case tracker_kpi kpiKeyValue kpi of
        Inl e \<Rightarrow> Inl e
      | Inr None \<Rightarrow> Inl UnboundLocalError
      | Inr (Some k) \<Rightarrow> createKpiTracker_kpis rest (Some k) (tr(k \<mapsto> empty_entry)))"

text \<open>
  Lines 1830-1852 for the test case that is run: \<open>KPI\<close> is the test case's dictionary from
  stat names to lists of KPI expressions, in the order of the YAML file; \<open>names\<close> are the
  keys still to visit.
\<close>

fun createKpiTracker_stats ::
  "(string \<times> string list) list \<Rightarrow> string list \<Rightarrow> string option \<Rightarrow> kpi_tracker
     \<Rightarrow> py_error + (string option \<times> kpi_tracker)" where
  "createKpiTracker_stats KPI [] kpi tracker = Inr (kpi, tracker)"
| "createKpiTracker_stats KPI (statName # names) kpi tracker =
     (case map_of KPI (strip statName) of
        None \<Rightarrow> Inl KeyError
      | Some kpiList \<Rightarrow>
          if ''NA'' \<in> set kpiList then createKpiTracker_stats KPI names kpi tracker
          else (case createKpiTracker_kpis kpiList kpi Map.empty of
                  Inl e \<Rightarrow> Inl e
                | Inr (kpi', tr) \<Rightarrow>
                    createKpiTracker_stats KPI names kpi' (tracker(strip statName \<mapsto> tr))))"

definition createKpiTracker :: "(string \<times> string list) list \<Rightarrow> py_error + kpi_tracker" where
  "createKpiTracker KPI =
     map_sum id snd (createKpiTracker_stats KPI (map fst KPI) None Map.empty)"

section \<open>Python built-ins and the host's operator table\<close>

text \<open>
  The code calls \<^verbatim>\<open>float\<close>, \<^verbatim>\<open>int\<close> and \<^verbatim>\<open>re.match\<close> of the Python library; they are
  parameters of the model. \<open>py_float s\<close> and \<open>py_int s\<close> are \<open>None\<close> where Python raises
  \<^verbatim>\<open>ValueError\<close>; \<open>re_match pattern string flags\<close> is \<^verbatim>\<open>bool(re.match(pattern, string, flags))\<close>,
  or the \<^verbatim>\<open>re.error\<close> of a pattern that does not compile.
\<close>

datatype re_flag = re_I

record builtins =
  py_float :: "string \<Rightarrow> rat option"
  py_int :: "string \<Rightarrow> int option"
  re_match :: "string \<Rightarrow> string \<Rightarrow> re_flag list \<Rightarrow> py_error + bool"

text \<open>
  \<^verbatim>\<open>self.mainObj.operators\<close> is a dictionary of the host framework, from operator symbols to
  comparison functions; it is a parameter \<open>ops\<close> of the model
  (\<open>ops symbol = None\<close> when \<^verbatim>\<open>.get\<close> finds no entry).
\<close>

type_synonym operator_table = "string \<Rightarrow> (rat \<Rightarrow> rat \<Rightarrow> bool) option"

text \<open>
  Modelled from the spec: the host's table \<^verbatim>\<open>operators\<close> is not part of the sources. The
  spec lists the comparisons \<^verbatim>\<open><=\<close>, \<^verbatim>\<open>>=\<close>, \<^verbatim>\<open><\<close>, \<^verbatim>\<open>>\<close>, \<^verbatim>\<open>==\<close>; the code looks equality up
  under the key \<^verbatim>\<open>=\<close> (line 2025).
\<close>

definition operators :: operator_table where
  "operators symbol =
     (if symbol = ''<='' then Some (\<lambda>a b. a \<le> b)
      else if symbol = ''>='' then Some (\<lambda>a b. a \<ge> b)
      else if symbol = ''<'' then Some (\<lambda>a b. a < b)
      else if symbol = ''>'' then Some (\<lambda>a b. a > b)
      else if symbol = ''='' then Some (\<lambda>a b. a = b)
      else None)"


section \<open>Evaluating one runtime KPI (\<^verbatim>\<open>Main.runTestcase\<close>, lines 1998-2063)\<close>

text \<open>
  A value of the dictionary returned by \<^verbatim>\<open>MW.getAllStats\<close>: a list of samples (time
  series), or one number (the sum of the non-timestamp branch).
\<close>

datatype stat_value = Series "rat list" | Total rat

text \<open>Lines 1999-2006: the loop that looks for the user-defined expression of a runtime KPI.\<close>

fun select_loop ::
  "builtins \<Rightarrow> string \<Rightarrow> string list \<Rightarrow> string list \<Rightarrow> nat option \<Rightarrow> py_error + nat option" where
  "select_loop B runtimeKpi kpiList [] index = Inr index"
| "select_loop B runtimeKpi kpiList (userDefinedKpi # rest) index =
     (case re_match B runtimeKpi userDefinedKpi [re_I] of
        Inl e \<Rightarrow> Inl e
      | Inr m \<Rightarrow>
          select_loop B runtimeKpi kpiList rest
            (if m then index_of kpiList userDefinedKpi else index))"

definition select_index :: "builtins \<Rightarrow> string \<Rightarrow> string list \<Rightarrow> py_error + nat option" where
  "select_index B runtimeKpi kpiList = select_loop B runtimeKpi kpiList kpiList None"

text \<open>
  Lines 2012-2029: the locals \<open>expectedKpiOperator\<close> and \<open>expectedValue\<close> after the
  \<^verbatim>\<open>if/elif\<close> chain; without an operator in the expression they keep what an earlier
  iteration left (\<open>prev\<close>).
\<close>

type_synonym expected = "string \<times> string"

definition expected_of :: "string \<Rightarrow> expected option \<Rightarrow> py_error + expected option" where
  "expected_of e prev =
     (if contains ''<='' e then map_sum id (\<lambda>v. Some (''<='', v)) (item (split ''<='' e) 1)
      else if contains ''>='' e then map_sum id (\<lambda>v. Some (''>='', v)) (item (split ''>='' e) 1)
      else if contains ''>'' e then map_sum id (\<lambda>v. Some (''>'', v)) (item (split ''>'' e) 1)
      else if contains ''<'' e then map_sum id (\<lambda>v. Some (''<'', v)) (item (split ''<'' e) 1)
      else if contains ''=='' e then map_sum id (\<lambda>v. Some (''='', v)) (item (split ''=='' e) 1)
      else if contains ''='' e then map_sum id (\<lambda>v. Some (''='', v)) (item (split ''='' e) 1)
      else Inr prev)"

text \<open>\<^verbatim>\<open>max(xs)\<close> (also \<^verbatim>\<open>MW.getMaxStat\<close>): the first greatest element; an empty list raises.\<close>

definition py_max :: "rat list \<Rightarrow> py_error + rat" where
  "py_max xs =
     (case xs of
        [] \<Rightarrow> Inl ValueError
      | x # rest \<Rightarrow> Inr (foldl (\<lambda>m y. if m < y then y else m) x rest))"

text \<open>Line 2034: \<^verbatim>\<open>max(currentStats[runtimeKpi])\<close>; a number is not iterable.\<close>

definition stat_max :: "stat_value \<Rightarrow> py_error + rat" where
  "stat_max value = (case value of Series xs \<Rightarrow> py_max xs | Total t \<Rightarrow> Inl TypeError)"

text \<open>
  \<^verbatim>\<open>v in range(start, stop)\<close> for a float \<open>v\<close>: Python searches the range for an element
  equal to \<open>v\<close>.
\<close>

definition in_range :: "rat \<Rightarrow> int \<Rightarrow> int \<Rightarrow> bool" where
  "in_range v start stop = list_ex (\<lambda>k. of_int k = v) [start..stop - 1]"

text \<open>Lines 2042-2050: the range branch.\<close>

definition range_result :: "builtins \<Rightarrow> string \<Rightarrow> rat \<Rightarrow> py_error + string" where
  "range_result B expectedValue maxValue =
     (case item (split ''-'' expectedValue) 0 of
        Inl e \<Rightarrow> Inl e
      | Inr lo \<Rightarrow>
         (case py_int B (strip lo) of
            None \<Rightarrow> Inl ValueError
          | Some minimumValue \<Rightarrow>
             (case item (split ''-'' expectedValue) 1 of
                Inl e \<Rightarrow> Inl e
              | Inr hi \<Rightarrow>
                 (case py_int B (strip hi) of
                    None \<Rightarrow> Inl ValueError
                  | Some maximumValue \<Rightarrow>
                      Inr (if in_range maxValue minimumValue (maximumValue + 1)
                           then ''passed'' else ''failed'')))))"

text \<open>Lines 2051-2059: the comparison branch.\<close>

definition compare_result ::
  "builtins \<Rightarrow> operator_table \<Rightarrow> string \<Rightarrow> string \<Rightarrow> rat \<Rightarrow> py_error + string" where
  "compare_result B ops expectedKpiOperator expectedValue maxValue =
     (case py_float B expectedValue of
        None \<Rightarrow> Inl ValueError
      | Some x \<Rightarrow>
         (case ops expectedKpiOperator of
            None \<Rightarrow> Inl TypeError
          | Some op \<Rightarrow> Inr (if op maxValue x then ''passed'' else ''failed'')))"

text \<open>Lines 2032-2063: the KPI name and the entry written to the tracker.\<close>

definition evaluate_kpi ::
  "builtins \<Rightarrow> operator_table \<Rightarrow> string \<Rightarrow> expected option \<Rightarrow> stat_value
     \<Rightarrow> py_error + (string \<times> kpi_entry)" where
  "evaluate_kpi B ops e expected value =
     (case expected of
        None \<Rightarrow> Inl UnboundLocalError
      | Some (expectedKpiOperator, expectedValue) \<Rightarrow>
         (case item (split expectedKpiOperator e) 0 of
            Inl err \<Rightarrow> Inl err
          | Inr name \<Rightarrow>
             (case stat_max value of
                Inl err \<Rightarrow> Inl err
              | Inr maxValue \<Rightarrow>
                 (case (if contains ''-'' expectedValue
                        then range_result B expectedValue maxValue
                        else compare_result B ops expectedKpiOperator expectedValue maxValue) of
                    Inl err \<Rightarrow> Inl err
                  | Inr res \<Rightarrow>
                      Inr (strip name,
                           \<lparr>kpi_result = Some res,
                            kpi_expectedValue = Some (expectedKpiOperator @ expectedValue),
                            kpi_maxValue = Some maxValue\<rparr>)))))"

text \<open>
  Line 2061: \<^verbatim>\<open>self.kpiStatTracker[self.eachTestcase][statName][kpi].update(...)\<close>; both
  keys must exist.
\<close>

definition tracker_update ::
  "kpi_tracker \<Rightarrow> string \<Rightarrow> string \<Rightarrow> kpi_entry \<Rightarrow> py_error + kpi_tracker" where
  "tracker_update tracker statName kpi entry =
     (case tracker statName of
        None \<Rightarrow> Inl KeyError
      | Some st \<Rightarrow>
         (case st kpi of
            None \<Rightarrow> Inl KeyError
          | Some old \<Rightarrow> Inr (tracker(statName \<mapsto> st(kpi \<mapsto> entry)))))"

text \<open>
  The body of the loop over \<^verbatim>\<open>currentStats.items()\<close> for one runtime KPI. The state is the
  pair of the locals \<open>expectedKpiOperator\<close>/\<open>expectedValue\<close> and the tracker.
\<close>

definition process_runtime_kpi ::
  "builtins \<Rightarrow> operator_table \<Rightarrow> string \<Rightarrow> string list \<Rightarrow> expected option \<times> kpi_tracker
     \<Rightarrow> string \<times> stat_value \<Rightarrow> py_error + (expected option \<times> kpi_tracker)" where
  "process_runtime_kpi B ops statName kpiList s kv =
     (case select_index B (fst kv) kpiList of
        Inl err \<Rightarrow> Inl err
      | Inr None \<Rightarrow> Inr s
      | Inr (Some index) \<Rightarrow>
         (case item kpiList index of
            Inl err \<Rightarrow> Inl err
          | Inr e \<Rightarrow>
             (case expected_of e (fst s) of
                Inl err \<Rightarrow> Inl err
              | Inr expected \<Rightarrow>
                 (case evaluate_kpi B ops e expected (snd kv) of
                    Inl err \<Rightarrow> Inl err
                  | Inr (kpi, entry) \<Rightarrow>
                     (case tracker_update (snd s) statName kpi entry of
                        Inl err \<Rightarrow> Inl err
                      | Inr tracker \<Rightarrow> Inr (expected, tracker))))))"

fun process_items ::
  "builtins \<Rightarrow> operator_table \<Rightarrow> string \<Rightarrow> string list \<Rightarrow> expected option \<times> kpi_tracker
     \<Rightarrow> (string \<times> stat_value) list \<Rightarrow> py_error + (expected option \<times> kpi_tracker)" where
  "process_items B ops statName kpiList s [] = Inr s"
| "process_items B ops statName kpiList s (kv # rest) =
     (case process_runtime_kpi B ops statName kpiList s kv of
        Inl err \<Rightarrow> Inl err
      | Inr s' \<Rightarrow> process_items B ops statName kpiList s' rest)"





section \<open>Statistics of a running test (\<^verbatim>\<open>MW.getAllStats\<close>)\<close>

datatype json = JNull | JNum rat | JStr string | JArr "json list"

text \<open>
  The JSON body of \<^verbatim>\<open>GET /api/v2/results/{testId}/stats/{statName}\<close>: \<open>columns\<close> is
  \<open>None\<close> for \<^verbatim>\<open>null\<close>; \<open>snapshots\<close> holds, for each snapshot, its \<^verbatim>\<open>values\<close>: rows of cells.
\<close>

record stats_json =
  columns :: "string list option"
  snapshots :: "json list list list"

record stats_response =
  status_code :: int
  body :: stats_json

text \<open>\<^verbatim>\<open>float(x)\<close> on a JSON value.\<close>

definition cell_float :: "builtins \<Rightarrow> json \<Rightarrow> py_error + rat" where
  "cell_float B x =
     (case x of
        JNum r \<Rightarrow> Inr r
      | JStr s \<Rightarrow> (case py_float B s of None \<Rightarrow> Inl ValueError | Some r \<Rightarrow> Inr r)
      | JNull \<Rightarrow> Inl TypeError
      | JArr xs \<Rightarrow> Inl TypeError)"

text \<open>
  Lines 1003-1004, the loop over \<open>j\<close>: \<^verbatim>\<open>statList.append(float(snapshots[j]['values'][0][i+1]))\<close>.
\<close>

fun timestamp_column ::
  "builtins \<Rightarrow> json list list list \<Rightarrow> nat \<Rightarrow> rat list \<Rightarrow> py_error + rat list" where
  "timestamp_column B [] i statList = Inr statList"
| "timestamp_column B (snapshot # rest) i statList =
     (case item snapshot 0 of
        Inl e \<Rightarrow> Inl e
      | Inr row \<Rightarrow>
         (case item row (i + 1) of
            Inl e \<Rightarrow> Inl e
          | Inr x \<Rightarrow>
             (case cell_float B x of
                Inl e \<Rightarrow> Inl e
              | Inr r \<Rightarrow> timestamp_column B rest i (statList @ [r]))))"

text \<open>
  Lines 1001-1006, the loop over \<open>i\<close>; \<open>col\<close> is the dictionary under construction, in
  insertion order (\<^verbatim>\<open>col[n] = statList\<close> keeps the position of a key that exists).
\<close>

fun timestamp_columns ::
  "builtins \<Rightarrow> string list \<Rightarrow> json list list list \<Rightarrow> nat list \<Rightarrow> (string \<times> stat_value) list
     \<Rightarrow> py_error + (string \<times> stat_value) list" where
  "timestamp_columns B cols snaps [] col = Inr col"
| "timestamp_columns B cols snaps (i # rest) col =
     (case item cols (i + 1) of
        Inl e \<Rightarrow> Inl e
      | Inr n \<Rightarrow>
         (case timestamp_column B snaps i [] of
            Inl e \<Rightarrow> Inl e
          | Inr statList \<Rightarrow>
              timestamp_columns B cols snaps rest (AList.update n (Series statList) col)))"

text \<open>Lines 1020-1021: \<^verbatim>\<open>statList.append(float(snapshots[0]['values'][j][i+1]))\<close>.\<close>

fun total_column ::
  "builtins \<Rightarrow> json list list \<Rightarrow> nat \<Rightarrow> rat list \<Rightarrow> py_error + rat list" where
  "total_column B [] i statList = Inr statList"
| "total_column B (row # rest) i statList =
     (case item row (i + 1) of
        Inl e \<Rightarrow> Inl e
      | Inr x \<Rightarrow>
         (case cell_float B x of
            Inl e \<Rightarrow> Inl e
          | Inr r \<Rightarrow> total_column B rest i (statList @ [r])))"

text \<open>\<^verbatim>\<open>sum(xs)\<close>: additions from the left, starting at 0.\<close>

definition py_sum :: "rat list \<Rightarrow> rat" where
  "py_sum xs = foldl (+) 0 xs"

text \<open>Lines 1018-1023.\<close>

fun total_columns ::
  "builtins \<Rightarrow> string list \<Rightarrow> json list list list \<Rightarrow> nat list \<Rightarrow> (string \<times> stat_value) list
     \<Rightarrow> py_error + (string \<times> stat_value) list" where
  "total_columns B cols snaps [] col = Inr col"
| "total_columns B cols snaps (i # rest) col =
     (case item cols (i + 1) of
        Inl e \<Rightarrow> Inl e
      | Inr n \<Rightarrow>
         (case item snaps 0 of
            Inl e \<Rightarrow> Inl e
          | Inr rows \<Rightarrow>
             (case total_column B rows i [] of
                Inl e \<Rightarrow> Inl e
              | Inr statList \<Rightarrow>
                  total_columns B cols snaps rest (AList.update n (Total (py_sum statList)) col))))"

text \<open>
  \<^verbatim>\<open>MW.getAllStats\<close> applied to the response of its GET. Any exception inside the first
  \<^verbatim>\<open>try\<close> ends in \<^verbatim>\<open>logError\<close>, which raises; inside the second one in \<^verbatim>\<open>logDebug\<close>, after
  which the function returns \<^verbatim>\<open>None\<close>. \<^verbatim>\<open>columns[0]\<close> is outside both.
\<close>

definition getAllStats ::
  "builtins \<Rightarrow> stats_response \<Rightarrow> int \<Rightarrow> py_error + (string \<times> stat_value) list option" where
  "getAllStats B response statusCode =
     (if status_code response \<noteq> statusCode then Inr None
      else (case columns (body response) of
              None \<Rightarrow> Inr None
            | Some cols \<Rightarrow>
               (case item cols 0 of
                  Inl e \<Rightarrow> Inl e
                | Inr first \<Rightarrow>
                    if first = ''timestamp''
                    then (case timestamp_columns B cols (snapshots (body response))
                                 [0..<length cols - 1] [] of
                            Inl e \<Rightarrow> Inl AbortingTest
                          | Inr col \<Rightarrow> Inr (Some col))
                    else (case total_columns B cols (snapshots (body response))
                                 [0..<length cols - 1] [] of
                            Inl e \<Rightarrow> Inr None
                          | Inr col \<Rightarrow> Inr (Some col)))))"

section \<open>The polling loop of \<^verbatim>\<open>Main.runTestcase\<close> (lines 1983-2083)\<close>

text \<open>
  What the middleware answers in iteration \<open>t\<close> of the loop: the response to the GET of
  each stat name, and status code and \<^verbatim>\<open>status\<close> field of the session's test.
\<close>

record poll_env =
  stats_responses :: "nat \<Rightarrow> string \<Rightarrow> stats_response"
  session_responses :: "nat \<Rightarrow> int \<times> string"

text \<open>\<^verbatim>\<open>MW.getSessionStatus\<close> (lines 515-518).\<close>

definition getSessionStatus :: "int \<times> string \<Rightarrow> py_error + string" where
  "getSessionStatus response =
     (if fst response \<noteq> 200 then Inl AssertionError else Inr (snd response))"

text \<open>
  The state the loop works on: the locals \<open>expectedKpiOperator\<close>/\<open>expectedValue\<close>, the
  tracker of the test case, the remaining duration, the arguments of the calls of
  \<^verbatim>\<open>time.sleep\<close> so far, the session statuses written to the log so far, and whether
  \<^verbatim>\<open>testcaseData['KPIs']\<close> refers to the tracker.
\<close>

record loop_state =
  expected_vars :: "expected option"
  kpiStatTracker :: kpi_tracker
  testConfiguredDuration :: rat
  sleeps :: "rat list"
  status_log :: "string list"
  testcaseData_KPIs :: bool

text \<open>Lines 1984-2063: the loop over the stat names.\<close>

fun poll_stats ::
  "builtins \<Rightarrow> operator_table \<Rightarrow> (string \<times> string list) list \<Rightarrow> (string \<Rightarrow> stats_response)
     \<Rightarrow> string list \<Rightarrow> expected option \<times> kpi_tracker
     \<Rightarrow> py_error + (expected option \<times> kpi_tracker)" where
  "poll_stats B ops KPI responses [] s = Inr s"
| "poll_stats B ops KPI responses (statName # rest) s =
     (case getAllStats B (responses statName) 200 of
        Inl e \<Rightarrow> Inl e
      | Inr None \<Rightarrow> poll_stats B ops KPI responses rest s
      | Inr (Some currentStats) \<Rightarrow>
         (case map_of KPI statName of
            None \<Rightarrow> Inl KeyError
          | Some kpiList \<Rightarrow>
             (case process_items B ops statName kpiList s currentStats of
                Inl e \<Rightarrow> Inl e
              | Inr s' \<Rightarrow> poll_stats B ops KPI responses rest s')))"

text \<open>
  One pass through the body of \<^verbatim>\<open>while True\<close>. The result is \<open>(True, s')\<close> when the body
  ends in \<^verbatim>\<open>break\<close>, \<open>(False, s')\<close> when it runs to its end. \<^verbatim>\<open>time.sleep\<close> raises on a
  negative argument. The calls of the host (\<^verbatim>\<open>updateModuleStatusData\<close>) and the log lines
  other than the session status are left out.
\<close>

definition poll_iteration ::
  "builtins \<Rightarrow> operator_table \<Rightarrow> (string \<times> string list) list \<Rightarrow> rat option \<Rightarrow> poll_env
     \<Rightarrow> nat \<Rightarrow> loop_state \<Rightarrow> py_error + (bool \<times> loop_state)" where
  "poll_iteration B ops KPI pollStatInterval env t s =
     (case poll_stats B ops KPI (stats_responses env t) (map fst KPI)
             (expected_vars s, kpiStatTracker s) of
        Inl e \<Rightarrow> Inl e
      | Inr (ex, tracker) \<Rightarrow>
         (case getSessionStatus (session_responses env t) of
            Inl e \<Rightarrow> Inl e
          | Inr status \<Rightarrow>
             (let s1 = s\<lparr>expected_vars := ex, kpiStatTracker := tracker,
                         status_log := status_log s @ [status]\<rparr>;
                  setPollInterval = (case pollStatInterval of
                                       None \<Rightarrow> (3 / 10) * 100
                                     | Some p \<Rightarrow> p * 100);
                  pollInterval = (case pollStatInterval of None \<Rightarrow> 3 / 10 | Some p \<Rightarrow> p)
              in if status \<in> set [''STOPPING'', ''STOPPED''] then Inr (True, s1)
                 else if setPollInterval < 0 then Inl ValueError
                 else Inr (False,
                           s1\<lparr>sleeps := sleeps s1 @ [setPollInterval],
                              testConfiguredDuration := testConfiguredDuration s1 - pollInterval,
                              testcaseData_KPIs := True\<rparr>))))"

text \<open>
  The loop. It has no bound: it returns \<open>None\<close> when the session never reports
  \<^verbatim>\<open>STOPPING\<close> or \<^verbatim>\<open>STOPPED\<close> and nothing raises.
\<close>

partial_function (option) poll_loop ::
  "builtins \<Rightarrow> operator_table \<Rightarrow> (string \<times> string list) list \<Rightarrow> rat option \<Rightarrow> poll_env
     \<Rightarrow> nat \<Rightarrow> loop_state \<Rightarrow> (py_error + loop_state) option" where
  "poll_loop B ops KPI pollStatInterval env t s =
     (case poll_iteration B ops KPI pollStatInterval env t s of
        Inl e \<Rightarrow> Some (Inl e)
      | Inr (stop, s') \<Rightarrow>
          if stop then Some (Inr s')
          else poll_loop B ops KPI pollStatInterval env (Suc t) s')"

section \<open>Starting the test (\<^verbatim>\<open>MW.startTest\<close>, lines 773-884)\<close>

text \<open>
  The JSON of an operation as the middleware reports it; a field is \<open>None\<close> when the key
  is missing.
\<close>

record op_json =
  op_state :: "string option"
  op_message :: "string option"
  op_resultUrl :: "string option"

text \<open>The calls \<^verbatim>\<open>startTest\<close> makes to the middleware and to its own helpers, as events.\<close>

datatype call =
    PostStart | GetState nat nat | GetTestId | Sleep2
  | VerifyLicenseSettings | CheckSessionStateStopped | RebootAgents
  | VerifyAllAgentsStatusUp | StopTest

text \<open>
  What the environment answers: the status code of the \<open>n\<close>-th POST of the start
  operation, the JSON of the \<open>k\<close>-th GET of the \<open>n\<close>-th operation, the exception a helper
  raises (if any) and the result of \<^verbatim>\<open>getTestId\<close>.
\<close>

record start_env =
  post_status :: "nat \<Rightarrow> int"
  poll_json :: "nat \<Rightarrow> nat \<Rightarrow> op_json"
  call_error :: "call \<Rightarrow> py_error option"
  test_id :: "py_error + string"

record start_state =
  events :: "call list"
  testId :: "string option"

text \<open>A sequence of helper calls; the first one that raises ends it.\<close>

fun run_calls :: "start_env \<Rightarrow> call list \<Rightarrow> start_state \<Rightarrow> py_error + start_state" where
  "run_calls env [] s = Inr s"
| "run_calls env (c # cs) s =
     (case call_error env c of
        Some e \<Rightarrow> Inl e
      | None \<Rightarrow> run_calls env cs (s\<lparr>events := events s @ [c]\<rparr>))"

text \<open>
  \<^verbatim>\<open>self.post(...)\<close> of the start operation followed by the assertion on its status code;
  \<open>n\<close> counts the POSTs made before.
\<close>

definition post_start :: "start_env \<Rightarrow> int \<Rightarrow> nat \<Rightarrow> start_state \<Rightarrow> py_error + start_state" where
  "post_start env statusCode n s =
     (if post_status env n = statusCode then Inr (s\<lparr>events := events s @ [PostStart]\<rparr>)
      else Inl AssertionError)"

text \<open>
  Lines 807-833, the recovery of the \<^verbatim>\<open>ERROR\<close> branch. \<^verbatim>\<open>verifyLicenseSettings\<close> returns
  \<^verbatim>\<open>None\<close> or raises, so the comparison with \<^verbatim>\<open>False\<close> never holds and
  \<^verbatim>\<open>setLicenseServer\<close> is not called.
\<close>

definition recover_after_error ::
  "start_env \<Rightarrow> int \<Rightarrow> start_state \<Rightarrow> py_error + start_state" where
  "recover_after_error env statusCode s =
     (case run_calls env [VerifyLicenseSettings, CheckSessionStateStopped, RebootAgents,
                          VerifyAllAgentsStatusUp, VerifyLicenseSettings] s of
        Inl e \<Rightarrow> Inl e
      | Inr s' \<Rightarrow> post_start env statusCode 1 s')"

text \<open>Lines 852-876, the recovery of the \<^verbatim>\<open>else\<close> of the \<^verbatim>\<open>while\<close>.\<close>

definition recover_after_timeout ::
  "start_env \<Rightarrow> int \<Rightarrow> start_state \<Rightarrow> py_error + start_state" where
  "recover_after_timeout env statusCode s =
     (case run_calls env [StopTest, CheckSessionStateStopped, VerifyLicenseSettings, RebootAgents,
                          VerifyAllAgentsStatusUp, VerifyLicenseSettings] s of
        Inl e \<Rightarrow> Inl e
      | Inr s' \<Rightarrow> post_start env statusCode 1 s')"

text \<open>
  Lines 881-884, the statements after the \<^verbatim>\<open>while ... else\<close>: they format the last polled
  JSON (the local \<open>state\<close>) and call \<^verbatim>\<open>logError\<close>, which raises.
\<close>

definition raise_start_failure :: "op_json option \<Rightarrow> py_error" where
  "raise_start_failure state =
     (case state of
        None \<Rightarrow> UnboundLocalError
      | Some j \<Rightarrow>
          if op_state j = None \<or> op_message j = None then KeyError else AbortingTest)"

text \<open>
  The \<^verbatim>\<open>while wait > 0: ... else: ...\<close> statement and what follows it. \<open>retry\<close> is the
  local of that name; the operation polled is the one of the last POST, that is
  operation \<open>retry\<close>; \<open>k\<close> counts the GETs of that operation; \<open>state\<close> is the local
  holding the last polled response. The result pairs what the function returns or raises
  with the events so far. The test \<^verbatim>\<open>'state' not in state.json()\<close> of line 792 cannot hold
  there: without the key, the comparison of line 788 has raised \<^verbatim>\<open>KeyError\<close> already.
\<close>

function start_loop ::
  "start_env \<Rightarrow> string \<Rightarrow> int \<Rightarrow> int \<Rightarrow> int \<Rightarrow> nat \<Rightarrow> nat \<Rightarrow> op_json option \<Rightarrow> start_state
     \<Rightarrow> (py_error + op_json) \<times> start_state" where
  "start_loop env result statusCode waitTime wait retry k state s =
     (if wait > 0 then
        (let j = poll_json env retry k;
             s1 = s\<lparr>events := events s @ [GetState retry k]\<rparr>
         in case op_state j of
              None \<Rightarrow> (Inl KeyError, s1)
            | Some st \<Rightarrow>
                if st = result then
                  (case test_id env of
                     Inl e \<Rightarrow> (Inl e, s1)
                   | Inr tid \<Rightarrow> (Inr j, s1\<lparr>events := events s1 @ [GetTestId], testId := Some tid\<rparr>))
                else if st = ''ERROR'' then
                  (if retry = 0 then
                     (case recover_after_error env statusCode s1 of
                        Inl e \<Rightarrow> (Inl e, s1)
                      | Inr s2 \<Rightarrow>
                          start_loop env result statusCode waitTime (waitTime - 1) 1 0 (Some j)
                            (s2\<lparr>events := events s2 @ [Sleep2]\<rparr>))
                   else (Inl (if op_message j = None then KeyError else AbortingTest), s1))
                else start_loop env result statusCode waitTime (wait - 1) retry (Suc k) (Some j)
                       (s1\<lparr>events := events s1 @ [Sleep2]\<rparr>))
      else if retry = 0 then
        (case recover_after_timeout env statusCode s of
           Inl e \<Rightarrow> (Inl e, s)
         | Inr s' \<Rightarrow> (Inl (raise_start_failure state), s'))
      else (Inl AbortingTest, s))"
  by pat_completeness auto
termination
  by (relation "measures [\<lambda>(env, result, statusCode, waitTime, wait, retry, k, state, s).
                             if retry = 0 then 1 else 0,
                          \<lambda>(env, result, statusCode, waitTime, wait, retry, k, state, s).
                             nat wait]") auto

declare start_loop.simps [simp del]

text \<open>\<^verbatim>\<open>MW.startTest(result, wait, statusCode)\<close>; the defaults are \<^verbatim>\<open>'SUCCESS'\<close>, 90 and 202.\<close>

definition startTest ::
  "start_env \<Rightarrow> string \<Rightarrow> int \<Rightarrow> int \<Rightarrow> (py_error + op_json) \<times> start_state" where
  "startTest env result wait statusCode =
     (case post_start env statusCode 0 \<lparr>events = [], testId = None\<rparr> of
        Inl e \<Rightarrow> (Inl e, \<lparr>events = [], testId = None\<rparr>)
      | Inr s \<Rightarrow> start_loop env result statusCode wait wait 0 0 None s)"

section \<open>Files, and \<^verbatim>\<open>Utils.convertCsvFileToJsonFile\<close> (lines 233-258)\<close>

text \<open>
  The file system is a map from paths to file contents. \<open>io_error\<close> says which
  operations on it raise. The state also holds the messages of \<^verbatim>\<open>logWarning\<close>.
\<close>

datatype io_op =
    OpenRead string | OpenWrite string | Chmod string | Rename string string
  | MakeFolder string | Unzip string | Rmtree string

record io_state =
  files :: "string \<rightharpoonup> string"
  warnings :: "string list"

definition warn :: "string \<Rightarrow> io_state \<Rightarrow> io_state" where
  "warn msg s = s\<lparr>warnings := warnings s @ [msg]\<rparr>"

text \<open>Lines 244-246: \<^verbatim>\<open>for row in csvReader: jsonArray.append(row)\<close>.\<close>

fun append_rows :: "string list list \<Rightarrow> string list list \<Rightarrow> string list list" where
  "append_rows [] jsonArray = jsonArray"
| "append_rows (row # rest) jsonArray = append_rows rest (jsonArray @ [row])"

text \<open>The JSON value of a Python list of lists of strings.\<close>

definition rows_json :: "string list list \<Rightarrow> json" where
  "rows_json jsonArray = JArr (map (\<lambda>row. JArr (map JStr row)) jsonArray)"

text \<open>
  \<^verbatim>\<open>csv.reader\<close> (the rows of a CSV text, each a list of cell strings) and \<^verbatim>\<open>json.dumps\<close>
  with \<^verbatim>\<open>indent=4\<close> are library functions and parameters of the model.
\<close>

record text_lib =
  csv_reader :: "string \<Rightarrow> string list list"
  json_dumps :: "json \<Rightarrow> string"

text \<open>
  Reading the CSV file is outside the \<^verbatim>\<open>try\<close>; opening and writing the JSON file and
  \<^verbatim>\<open>os.chmod\<close> are inside, and any exception there ends in \<^verbatim>\<open>logWarning\<close> and \<^verbatim>\<open>False\<close>.
\<close>

definition convertCsvFileToJsonFile ::
  "text_lib \<Rightarrow> (io_op \<Rightarrow> py_error option) \<Rightarrow> string \<Rightarrow> string \<Rightarrow> io_state
     \<Rightarrow> py_error + (bool \<times> io_state)" where
  "convertCsvFileToJsonFile L io_error csvFilePath jsonFilePath s =
     (case io_error (OpenRead csvFilePath) of
        Some e \<Rightarrow> Inl e
      | None \<Rightarrow>
         (case files s csvFilePath of
            None \<Rightarrow> Inl OSError
          | Some csvf \<Rightarrow>
             (let jsonArray = append_rows (csv_reader L csvf) []
              in case io_error (OpenWrite jsonFilePath) of
                   Some e \<Rightarrow> Inr (False, warn ''convertCsvFileToJson failed'' s)
                 | None \<Rightarrow>
                    (let s1 = s\<lparr>files := (files s)(jsonFilePath \<mapsto>
                                                    json_dumps L (rows_json jsonArray))\<rparr>
                     in case io_error (Chmod jsonFilePath) of
                          Some e \<Rightarrow> Inr (False, warn ''convertCsvFileToJson failed'' s1)
                        | None \<Rightarrow> Inr (True, s1)))))"

section \<open>Retrieving artifacts (\<^verbatim>\<open>MW.getPDFreport\<close>, \<^verbatim>\<open>MW.getCSVs\<close>, \<^verbatim>\<open>MW.getCapturedLogs\<close>)\<close>

text \<open>
  What the middleware answers to one retrieval: the result of \<^verbatim>\<open>getTestId\<close>, the status
  code of the POST of the generate operation, the JSON of the \<open>k\<close>-th GET of the
  operation, the body of the result, its \<^verbatim>\<open>Content-Disposition\<close> header (if any), and the
  files of the result when it is a zip archive, in the order \<^verbatim>\<open>os.listdir\<close> gives them
  after extraction.
\<close>

record artifact_env =
  art_test_id :: "py_error + string"
  generate_status :: int
  operation_json :: "nat \<Rightarrow> op_json"
  result_content :: string
  content_disposition :: "string option"
  archive_entries :: "(string \<times> string) list"

datatype poll_outcome = Succeeded op_json | Errored | TimedOut

text \<open>
  The \<^verbatim>\<open>while wait > 0\<close> loop, the same in the three functions: \<^verbatim>\<open>SUCCESS\<close> leaves it by
  \<^verbatim>\<open>break\<close>, \<^verbatim>\<open>ERROR\<close> returns \<^verbatim>\<open>None\<close>, anything else costs 5 of the budget.
\<close>

function poll_operation :: "(nat \<Rightarrow> op_json) \<Rightarrow> int \<Rightarrow> nat \<Rightarrow> py_error + poll_outcome" where
  "poll_operation states wait k =
     (if wait > 0 then
        (case op_state (states k) of
           None \<Rightarrow> Inl KeyError
         | Some st \<Rightarrow>
             if st = ''SUCCESS'' then Inr (Succeeded (states k))
             else if st = ''ERROR'' then Inr Errored
             else poll_operation states (wait - 5) (Suc k))
      else Inr TimedOut)"
  by pat_completeness auto
termination
  by (relation "measure (\<lambda>(states, wait, k). nat wait)") auto

declare poll_operation.simps [simp del]

text \<open>\<^verbatim>\<open>with open(filename, 'wb') as f: f.write(content)\<close> followed by \<^verbatim>\<open>os.chmod\<close>.\<close>

definition write_file ::
  "(io_op \<Rightarrow> py_error option) \<Rightarrow> string \<Rightarrow> string \<Rightarrow> io_state \<Rightarrow> py_error + io_state" where
  "write_file io_error filename content s =
     (case io_error (OpenWrite filename) of
        Some e \<Rightarrow> Inl e
      | None \<Rightarrow>
         (case io_error (Chmod filename) of
            Some e \<Rightarrow> Inl e
          | None \<Rightarrow> Inr (s\<lparr>files := (files s)(filename \<mapsto> content)\<rparr>)))"

text \<open>Lines 1579-1620.\<close>

definition getPDFreport ::
  "artifact_env \<Rightarrow> (io_op \<Rightarrow> py_error option) \<Rightarrow> string \<Rightarrow> string \<Rightarrow> int \<Rightarrow> int \<Rightarrow> io_state
     \<Rightarrow> py_error + (string option \<times> io_state)" where
  "getPDFreport env io_error testcaseResultsFolder testcaseName wait statusCode s =
     (case art_test_id env of
        Inl e \<Rightarrow> Inl e
      | Inr testID \<Rightarrow>
          if generate_status env \<noteq> statusCode
          then Inr (None, warn ''getPDFreport failed to get from LoadCore middleware'' s)
          else (case poll_operation (operation_json env) wait 0 of
                  Inl e \<Rightarrow> Inl e
                | Inr Errored \<Rightarrow> Inr (None, warn ''getPDFreport: Could not get the pdf report'' s)
                | Inr TimedOut \<Rightarrow>
                    Inr (None, warn ''GetPDFreport: Failed to download the pdf report'' s)
                | Inr (Succeeded j) \<Rightarrow>
                   (case op_resultUrl j of
                      None \<Rightarrow> Inl KeyError
                    | Some url \<Rightarrow>
                       (let filename = testcaseResultsFolder @ ''/'' @ testcaseName @ ''.pdf''
                        in case write_file io_error filename (result_content env) s of
                             Inl e \<Rightarrow> Inl e
                           | Inr s1 \<Rightarrow> Inr (Some filename, s1)))))"

text \<open>\<^verbatim>\<open>sep.join(xs)\<close> and \<^verbatim>\<open>s.replace(old, new)\<close> for a non-empty \<open>old\<close>.\<close>

fun join :: "string \<Rightarrow> string list \<Rightarrow> string" where
  "join sep [] = []"
| "join sep [x] = x"
| "join sep (x # y # ys) = x @ sep @ join sep (y # ys)"

definition replace :: "string \<Rightarrow> string \<Rightarrow> string \<Rightarrow> string" where
  "replace old new s = join new (split old s)"

text \<open>Lines 1736-1773.\<close>

definition getCapturedLogs ::
  "artifact_env \<Rightarrow> (io_op \<Rightarrow> py_error option) \<Rightarrow> string \<Rightarrow> string \<Rightarrow> int \<Rightarrow> int \<Rightarrow> io_state
     \<Rightarrow> py_error + (string option \<times> io_state)" where
  "getCapturedLogs env io_error testcaseResultsFolder testcaseName wait statusCode s =
     (case art_test_id env of
        Inl e \<Rightarrow> Inl e
      | Inr testID \<Rightarrow>
          if generate_status env \<noteq> statusCode
          then Inr (None, warn ''getCapturedLogs: Failed to get from LoadCore middleware'' s)
          else (case poll_operation (operation_json env) wait 0 of
                  Inl e \<Rightarrow> Inl e
                | Inr Errored \<Rightarrow>
                    Inr (None, warn ''getCapturedLogs: Could not get the captures/logs archive'' s)
                | Inr TimedOut \<Rightarrow>
                    Inr (None,
                         warn ''getCapturedLogs: Failed to download the capture and log report'' s)
                | Inr (Succeeded j) \<Rightarrow>
                   (case op_resultUrl j of
                      None \<Rightarrow> Inl KeyError
                    | Some url \<Rightarrow>
                       (case content_disposition env of
                          None \<Rightarrow> Inl KeyError
                        | Some header \<Rightarrow>
                           (case item (split ''='' header) 1 of
                              Inl e \<Rightarrow> Inl e
                            | Inr name \<Rightarrow>
                               (let filename = testcaseResultsFolder @ ''/'' @ testcaseName @ ''-''
                                                 @ replace [CHR 0x22] [] name
                                in case write_file io_error filename (result_content env) s of
                                     Inl e \<Rightarrow> Inl e
                                   | Inr s1 \<Rightarrow> Inr (Some filename, s1)))))))"

text \<open>
  The argument \<open>csvFilesToGet\<close> of \<^verbatim>\<open>getCSVs\<close> is the string \<^verbatim>\<open>'all'\<close> (the default) or a list
  of names; \<^verbatim>\<open>x in csvFilesToGet\<close> is a substring test on the one and membership in the
  other.
\<close>

datatype str_or_list = PyStr string | PyList "string list"

definition py_in :: "string \<Rightarrow> str_or_list \<Rightarrow> bool" where
  "py_in x c = (case c of PyStr s \<Rightarrow> contains x s | PyList xs \<Rightarrow> x \<in> set xs)"

text \<open>
  Lines 1696-1725: the body of the loop over the extracted files. \<open>allKpiJsonFolder\<close> and
  \<open>testcaseJsonFolder\<close> are the locals of these names, \<open>None\<close> while unassigned.
\<close>

definition convert_extracted ::
  "text_lib \<Rightarrow> (io_op \<Rightarrow> py_error option) \<Rightarrow> string \<Rightarrow> string option \<Rightarrow> string option
     \<Rightarrow> str_or_list \<Rightarrow> string \<Rightarrow> io_state \<Rightarrow> py_error + io_state" where
  "convert_extracted L io_error testcaseCsvFolder allKpiJsonFolder testcaseJsonFolder
       csvFilesToGet eachCsvFile s =
     (if \<not> contains ''.csv'' eachCsvFile then Inr s
      else
       (case item (split ''.csv'' eachCsvFile) 0 of
          Inl e \<Rightarrow> Inl e
        | Inr currentFilename \<Rightarrow>
           (let renamedFile = last (split ''Fullcore'' eachCsvFile);
                renamedFilePath = testcaseCsvFolder @ ''/'' @ renamedFile;
                source = testcaseCsvFolder @ ''/'' @ eachCsvFile
            in case io_error (Rename source renamedFilePath) of
                 Some e \<Rightarrow> Inl e
               | None \<Rightarrow>
                  (case files s source of
                     None \<Rightarrow> Inl OSError
                   | Some csvf \<Rightarrow>
                      (let s1 = s\<lparr>files := ((files s)(source := None))(renamedFilePath \<mapsto> csvf)\<rparr>
                       in case allKpiJsonFolder of
                            None \<Rightarrow> Inl UnboundLocalError
                          | Some folder \<Rightarrow>
                             (let renamedToJsonExtension =
                                    replace ''.csv'' ''.json'' (folder @ ''/'' @ renamedFile)
                              in case convertCsvFileToJsonFile L io_error renamedFilePath
                                        renamedToJsonExtension s1 of
                                   Inl e \<Rightarrow> Inl e
                                 | Inr (False, s2) \<Rightarrow> Inr s2
                                 | Inr (True, s2) \<Rightarrow>
                                    (case io_error (Chmod renamedToJsonExtension) of
                                       Some e \<Rightarrow> Inl e
                                     | None \<Rightarrow>
                                        if \<not> py_in currentFilename csvFilesToGet then Inr s2
                                        else if csvf = [] then
                                          Inr (warn ''Expected KPI CSV result file is empty'' s2)
                                        else
                                         (case testcaseJsonFolder of
                                            None \<Rightarrow> Inl UnboundLocalError
                                          | Some folder2 \<Rightarrow>
                                             (let json2 = replace ''.csv'' ''.json''
                                                            (folder2 @ ''/'' @ renamedFile)
                                              in case convertCsvFileToJsonFile L io_error
                                                        renamedFilePath json2 s2 of
                                                   Inl e \<Rightarrow> Inl e
                                                 | Inr (ok, s3) \<Rightarrow>
                                                    (case io_error (Chmod json2) of
                                                       Some e \<Rightarrow> Inl e
                                                     | None \<Rightarrow>
                                                        if files s3 json2 = None then Inl OSError
                                                        else Inr s3))))))))))"

fun convert_all ::
  "text_lib \<Rightarrow> (io_op \<Rightarrow> py_error option) \<Rightarrow> string \<Rightarrow> string option \<Rightarrow> string option
     \<Rightarrow> str_or_list \<Rightarrow> string list \<Rightarrow> io_state \<Rightarrow> py_error + io_state" where
  "convert_all L io_error csvFolder allKpi tcJson csvFilesToGet [] s = Inr s"
| "convert_all L io_error csvFolder allKpi tcJson csvFilesToGet (f # rest) s =
     (case convert_extracted L io_error csvFolder allKpi tcJson csvFilesToGet f s of
        Inl e \<Rightarrow> Inl e
      | Inr s' \<Rightarrow> convert_all L io_error csvFolder allKpi tcJson csvFilesToGet rest s')"

text \<open>The first exception among a sequence of operations on the file system, if any.\<close>

fun first_error :: "(io_op \<Rightarrow> py_error option) \<Rightarrow> io_op list \<Rightarrow> py_error option" where
  "first_error io_error [] = None"
| "first_error io_error (x # xs) =
     (case io_error x of Some e \<Rightarrow> Some e | None \<Rightarrow> first_error io_error xs)"

text \<open>\<^verbatim>\<open>ZipFile(filename).extractall(folder)\<close>: every entry becomes a file of the folder.\<close>

fun extractall ::
  "string \<Rightarrow> (string \<times> string) list \<Rightarrow> (string \<rightharpoonup> string) \<Rightarrow> (string \<rightharpoonup> string)" where
  "extractall folder [] fs = fs"
| "extractall folder (entry # rest) fs =
     extractall folder rest (fs(folder @ ''/'' @ fst entry \<mapsto> snd entry))"

text \<open>\<^verbatim>\<open>shutil.rmtree(folder)\<close>: no file below the folder remains.\<close>

definition rmtree :: "string \<Rightarrow> (string \<rightharpoonup> string) \<Rightarrow> (string \<rightharpoonup> string)" where
  "rmtree folder fs = (\<lambda>path. if prefix (folder @ ''/'') path then None else fs path)"

text \<open>Lines 1622-1734; the defaults are \<^verbatim>\<open>'all'\<close>, \<^verbatim>\<open>False\<close>, 180 and 202.\<close>

definition getCSVs ::
  "text_lib \<Rightarrow> artifact_env \<Rightarrow> (io_op \<Rightarrow> py_error option) \<Rightarrow> string \<Rightarrow> string \<Rightarrow> str_or_list
     \<Rightarrow> bool \<Rightarrow> int \<Rightarrow> int \<Rightarrow> io_state \<Rightarrow> py_error + (string option \<times> io_state)" where
  "getCSVs L env io_error testcaseResultsFolder testcaseName csvFilesToGet convertCsvToJson
       wait statusCode s =
     (case art_test_id env of
        Inl e \<Rightarrow> Inl e
      | Inr testID \<Rightarrow>
          if generate_status env \<noteq> statusCode
          then Inr (None, warn ''getCSVs: Failed to get from LoadCore middleware'' s)
          else (case poll_operation (operation_json env) wait 0 of
                  Inl e \<Rightarrow> Inl e
                | Inr Errored \<Rightarrow> Inr (None, warn ''getCSV: Could not get the results archive'' s)
                | Inr TimedOut \<Rightarrow>
                    Inr (None, warn ''getCSVs: Failed to download the csv report'' s)
                | Inr (Succeeded j) \<Rightarrow>
                   (case op_resultUrl j of
                      None \<Rightarrow> Inl KeyError
                    | Some url \<Rightarrow>
                       (case content_disposition env of
                          None \<Rightarrow> Inl KeyError
                        | Some csvHeaders \<Rightarrow>
                           (let filename = testcaseResultsFolder @ ''/'' @ testcaseName @ ''_csv.zip'';
                                testcaseCsvFolder = testcaseResultsFolder @ ''/CSV'';
                                allKpiJsonFolder =
                                  (if convertCsvToJson
                                   then Some (testcaseResultsFolder @ ''/JSON_KPIs'') else None);
                                testcaseJsonFolder =
                                  (if convertCsvToJson
                                   then Some (testcaseResultsFolder @ ''/JSON_KPIResults'') else None)
                            in case write_file io_error filename (result_content env) s of
                                 Inl e \<Rightarrow> Inl e
                               | Inr s1 \<Rightarrow>
                                  (case first_error io_error
                                          ([MakeFolder testcaseCsvFolder, Unzip filename] @
                                           (if convertCsvToJson
                                            then [MakeFolder (testcaseResultsFolder @ ''/JSON_KPIs''),
                                                  MakeFolder (testcaseResultsFolder @ ''/JSON_KPIResults'')]
                                            else [])) of
                                     Some e \<Rightarrow> Inl e
                                   | None \<Rightarrow>
                                      (let s2 = s1\<lparr>files := extractall testcaseCsvFolder
                                                               (archive_entries env) (files s1)\<rparr>
                                       in case convert_all L io_error testcaseCsvFolder
                                                 allKpiJsonFolder testcaseJsonFolder csvFilesToGet
                                                 (map fst (archive_entries env)) s2 of
                                            Inl e \<Rightarrow> Inl e
                                          | Inr s3 \<Rightarrow>
                                             (case io_error (Rmtree testcaseCsvFolder) of
                                                Some e \<Rightarrow> Inl e
                                              | None \<Rightarrow>
                                                 Inr (Some filename,
                                                      s3\<lparr>files := rmtree testcaseCsvFolder
                                                                     (files s3)\<rparr>)))))))))"

section \<open>Instances of the built-ins on plain inputs\<close>

text \<open>
  For evaluating the model at concrete inputs: \<open>int_of_digits\<close> is \<^verbatim>\<open>int\<close> on strings of
  decimal digits, \<open>float_of_digits\<close> is \<^verbatim>\<open>float\<close> on such strings, and \<open>literal_match\<close> is
  \<^verbatim>\<open>re.match\<close> for patterns made of letters, digits and spaces only, which match
  themselves (with \<^verbatim>\<open>re.I\<close>, up to the case of ASCII letters). They are used at such
  inputs only.
\<close>

fun digits_value :: "string \<Rightarrow> nat \<Rightarrow> nat option" where
  "digits_value [] acc = Some acc"
| "digits_value (c # cs) acc =
     (case index_of ''0123456789'' c of
        None \<Rightarrow> None
      | Some d \<Rightarrow> digits_value cs (10 * acc + d))"

definition int_of_digits :: "string \<Rightarrow> int option" where
  "int_of_digits s = (if s = [] then None else map_option int (digits_value s 0))"

definition float_of_digits :: "string \<Rightarrow> rat option" where
  "float_of_digits s = map_option of_int (int_of_digits s)"

definition lower :: "char \<Rightarrow> char" where
  "lower c =
     (case index_of ''ABCDEFGHIJKLMNOPQRSTUVWXYZ'' c of
        None \<Rightarrow> c
      | Some i \<Rightarrow> ''abcdefghijklmnopqrstuvwxyz'' ! i)"

definition literal_match :: "string \<Rightarrow> string \<Rightarrow> re_flag list \<Rightarrow> py_error + bool" where
  "literal_match pattern s flags =
     (if re_I \<in> set flags then Inr (prefix (map lower pattern) (map lower s))
      else Inr (prefix pattern s))"

definition plain_builtins :: builtins where
  "plain_builtins =
     \<lparr>py_float = float_of_digits, py_int = int_of_digits, re_match = literal_match\<rparr>"



text \<open>
  \<open>plain_csv_reader\<close> is \<^verbatim>\<open>csv.reader\<close> on texts of non-empty lines without quotes or
  carriage returns, and \<open>dumps\<close> is \<^verbatim>\<open>json.dumps(x, indent=4)\<close> on arrays and on strings
  without characters to escape, at nesting depth \<open>d\<close>.
\<close>

definition plain_csv_reader :: "string \<Rightarrow> string list list" where
  "plain_csv_reader csvf = map (split '','') (filter (\<lambda>l. l \<noteq> []) (split [CHR 0x0A] csvf))"

fun dumps :: "nat \<Rightarrow> json \<Rightarrow> string" where
  "dumps d (JStr s) = [CHR 0x22] @ s @ [CHR 0x22]"
| "dumps d (JArr xs) =
     (if xs = [] then ''[]''
      else ''['' @ [CHR 0x0A]
           @ join ('','' @ [CHR 0x0A]) (map (\<lambda>x. replicate (4 * Suc d) (CHR '' '') @ dumps (Suc d) x) xs)
           @ [CHR 0x0A] @ replicate (4 * d) (CHR '' '') @ '']'')"
| "dumps d JNull = ''null''"
| "dumps d (JNum r) = ''null''"

definition plain_text_lib :: text_lib where
  "plain_text_lib = \<lparr>csv_reader = plain_csv_reader, json_dumps = dumps 0\<rparr>"

section \<open>Sample answers of the middleware\<close>

text \<open>
  A session that reports \<^verbatim>\<open>STARTED\<close> at the first poll and \<^verbatim>\<open>STOPPED\<close> afterwards, with no
  statistics available (status 404), and the state in which the polling loop starts.
\<close>

definition demo_env :: poll_env where
  "demo_env =
     \<lparr>stats_responses = (\<lambda>t statName. \<lparr>status_code = 404, body = \<lparr>columns = None, snapshots = []\<rparr>\<rparr>),
      session_responses = (\<lambda>t. (200, if t = 0 then ''STARTED'' else ''STOPPED''))\<rparr>"

definition demo_state :: loop_state where
  "demo_state =
     \<lparr>expected_vars = None, kpiStatTracker = Map.empty, testConfiguredDuration = 2,
      sleeps = [], status_log = [], testcaseData_KPIs = False\<rparr>"

text \<open>
  A statistics response with a \<^verbatim>\<open>timestamp\<close> column and two snapshots, and one without a
  \<^verbatim>\<open>timestamp\<close> column, with one snapshot of two rows.
\<close>

definition demo_series :: stats_response where
  "demo_series =
     \<lparr>status_code = 200,
      body = \<lparr>columns = Some [''timestamp'', ''A'', ''B''],
              snapshots = [[[JNum 10, JNum 2, JStr ''3'']], [[JNum 20, JNum 5, JStr ''7'']]]\<rparr>\<rparr>"

definition demo_totals :: stats_response where
  "demo_totals =
     \<lparr>status_code = 200,
      body = \<lparr>columns = Some [''name'', ''A''],
              snapshots = [[[JStr ''x'', JNum 2], [JStr ''y'', JNum (7 / 2)]]]\<rparr>\<rparr>"




text \<open>
  Two middlewares for \<^verbatim>\<open>startTest\<close>: one whose first start operation stays
  \<^verbatim>\<open>IN_PROGRESS\<close> and whose second one succeeds at once, and one whose first start
  operation reports \<^verbatim>\<open>ERROR\<close> and whose second one succeeds at once.
\<close>

definition slow_start_env :: start_env where
  "slow_start_env =
     \<lparr>post_status = (\<lambda>n. 202),
      poll_json = (\<lambda>n k. \<lparr>op_state = Some (if n = 0 then ''IN_PROGRESS'' else ''SUCCESS''),
                          op_message = Some [], op_resultUrl = None\<rparr>),
      call_error = (\<lambda>c. None),
      test_id = Inr ''wireless-1''\<rparr>"

definition error_start_env :: start_env where
  "error_start_env =
     \<lparr>post_status = (\<lambda>n. 202),
      poll_json = (\<lambda>n k. \<lparr>op_state = Some (if n = 0 then ''ERROR'' else ''SUCCESS''),
                          op_message = Some [], op_resultUrl = None\<rparr>),
      call_error = (\<lambda>c. None),
      test_id = Inr ''wireless-1''\<rparr>"

text \<open>
  A middleware whose generate operation succeeds at the first poll, with a result archive
  holding one CSV file.
\<close>

definition csv_artifact_env :: artifact_env where
  "csv_artifact_env =
     \<lparr>art_test_id = Inr ''wireless-1'', generate_status = 202,
      operation_json = (\<lambda>k. \<lparr>op_state = Some ''SUCCESS'', op_message = None,
                              op_resultUrl = Some ''/result''\<rparr>),
      result_content = ''PK'',
      content_disposition = Some ''attachment; filename=r.zip'',
      archive_entries = [(''a.csv'', ''x,y'' @ [CHR 0x0A])]\<rparr>"

section \<open>Facts about the string operations\<close>

lemma split_nonempty: "split sep s \<noteq> []"
  by (induction sep s rule: split.induct) (auto split: list.splits)

lemma contains_subset: "contains sub s \<Longrightarrow> set sub \<subseteq> set s"
proof (induction s)
  case Nil
  then show ?case by simp
next
  case (Cons a s)
  then show ?case using set_mono_prefix [of sub "a # s"] by auto
qed

lemma contains_prefix: "prefix sub s \<Longrightarrow> contains sub s"
  by (cases s) auto

lemma contains_append: "contains sub (a @ sub @ b)"
  by (induction a) (simp_all add: contains_prefix)

lemma split_no_sep: "c \<notin> set s \<Longrightarrow> split (c # cs) s = [s]"
  by (induction s) (auto simp: prefix_def)

lemma split_first: "c \<notin> set a \<Longrightarrow> split (c # cs) (a @ (c # cs) @ b) = a # split (c # cs) b"
  by (induction a) (auto simp: prefix_def)

lemma item_0: "item (x # xs) 0 = Inr x" by (simp add: item_def)
lemma item_1: "item (x # y # xs) 1 = Inr y" by (simp add: item_def)



lemma not_contains: "c \<notin> set s \<Longrightarrow> \<not> contains (c # cs) s"
  using contains_subset [of "c # cs" s] by auto

lemma not_contains2: "d \<notin> set s \<Longrightarrow> \<not> contains [c, d] s"
  using contains_subset [of "[c, d]" s] by auto

lemma contains1: "contains [c] (a @ c # b)"
  using contains_append [of "[c]" a b] by simp

lemma contains2: "contains [c, d] (a @ c # d # b)"
  using contains_append [of "[c, d]" a b] by simp

lemma split_first1: "c \<notin> set a \<Longrightarrow> split [c] (a @ c # b) = a # split [c] b"
  using split_first [of c a "[]" b] by simp

lemma split_first2: "c \<notin> set a \<Longrightarrow> split [c, d] (a @ c # d # b) = a # split [c, d] b"
  using split_first [of c a "[d]" b] by simp

lemma expected_of_form:
  assumes "OP \<in> set [''<='', ''>='', ''<'', ''>'', ''=='']"
      and n: "set name \<inter> set ''<>='' = {}" and v: "set v \<inter> set ''<>='' = {}"
  shows "expected_of (name @ OP @ v) prev = Inr (Some (if OP = ''=='' then ''='' else OP, v))"
proof -
  from n have n': "CHR ''<'' \<notin> set name" "CHR ''>'' \<notin> set name" "CHR ''='' \<notin> set name"
    by auto
  from v have v': "CHR ''<'' \<notin> set v" "CHR ''>'' \<notin> set v" "CHR ''='' \<notin> set v"
    by auto
  consider "OP = ''<=''" | "OP = ''>=''" | "OP = ''<''" | "OP = ''>''" | "OP = ''==''"
    using assms(1) by auto
  then show ?thesis
  proof cases
    case 1
    then show ?thesis using n' v'
      by (simp add: expected_of_def contains2 split_first2 split_no_sep item_def)
  next
    case 2
    then show ?thesis using n' v'
      by (simp add: expected_of_def contains2 split_first2 split_no_sep item_def not_contains)
  next
    case 3
    then show ?thesis using n' v'
      by (simp add: expected_of_def contains1 split_first1 split_no_sep item_def not_contains
            not_contains2)
  next
    case 4
    then show ?thesis using n' v'
      by (simp add: expected_of_def contains1 split_first1 split_no_sep item_def not_contains
            not_contains2)
  next
    case 5
    then show ?thesis using n' v'
      by (simp add: expected_of_def contains2 split_first2 split_no_sep item_def not_contains)
  qed
qed

lemma name_of_form:
  assumes "OP \<in> set [''<='', ''>='', ''<'', ''>'', ''=='']"
      and n: "set name \<inter> set ''<>='' = {}"
  shows "item (split (if OP = ''=='' then ''='' else OP) (name @ OP @ v)) 0 = Inr name"
proof -
  from n have n': "CHR ''<'' \<notin> set name" "CHR ''>'' \<notin> set name" "CHR ''='' \<notin> set name"
    by auto
  consider "OP = ''<=''" | "OP = ''>=''" | "OP = ''<''" | "OP = ''>''" | "OP = ''==''"
    using assms(1) by auto
  then show ?thesis
    by cases (simp_all add: n' split_first1 split_first2 item_def)
qed

lemma in_range_iff: "in_range v start stop = (\<exists>k. start \<le> k \<and> k < stop \<and> of_int k = v)"
  by (auto simp: in_range_def list_ex_iff)

section \<open>Selecting the expression of a runtime KPI\<close>

lemma index_from_Some:
  "index_from xs x n = Some i \<Longrightarrow> n \<le> i \<and> i - n < length xs \<and> xs ! (i - n) = x"
proof (induction xs arbitrary: n)
  case Nil
  then show ?case by simp
next
  case (Cons y ys)
  show ?case
  proof (cases "y = x")
    case True
    with Cons.prems show ?thesis by simp
  next
    case False
    with Cons.prems have "index_from ys x (Suc n) = Some i" by simp
    from Cons.IH [OF this] have *: "Suc n \<le> i" "i - Suc n < length ys" "ys ! (i - Suc n) = x"
      by auto
    from *(1) have "i - n = Suc (i - Suc n)" by arith
    with * show ?thesis by simp
  qed
qed

lemma index_of_Some: "index_of xs x = Some i \<Longrightarrow> i < length xs \<and> xs ! i = x"
  using index_from_Some [of xs x 0 i] by (simp add: index_of_def)

lemma index_from_mem: "x \<in> set xs \<Longrightarrow> \<exists>i. index_from xs x n = Some i"
  by (induction xs arbitrary: n) auto

lemma index_of_mem: "x \<in> set xs \<Longrightarrow> \<exists>i. index_of xs x = Some i \<and> i < length xs \<and> xs ! i = x"
  using index_from_mem [of x xs 0] index_of_Some [of xs x] by (auto simp: index_of_def)

lemma select_loop_bound:
  assumes "select_loop B r kpiList us idx = Inr (Some i)"
      and "\<forall>j. idx = Some j \<longrightarrow> j < length kpiList"
  shows "i < length kpiList"
  using assms
proof (induction us arbitrary: idx)
  case Nil
  then show ?case by simp
next
  case (Cons u us)
  from Cons.prems(1) obtain m where m: "re_match B r u [re_I] = Inr m"
    by (cases "re_match B r u [re_I]") auto
  let ?idx = "if m then index_of kpiList u else idx"
  from Cons.prems(1) m have "select_loop B r kpiList us ?idx = Inr (Some i)" by simp
  moreover have "\<forall>j. ?idx = Some j \<longrightarrow> j < length kpiList"
    using Cons.prems(2) index_of_Some [of kpiList u] by auto
  ultimately show ?case by (rule Cons.IH)
qed

lemma select_index_bound:
  "select_index B r kpiList = Inr (Some i) \<Longrightarrow> i < length kpiList"
  unfolding select_index_def by (rule select_loop_bound) auto

lemma select_loop_filter:
  assumes "\<forall>u \<in> set us. re_match B r u [re_I] = Inr (m u)"
  shows "select_loop B r kpiList us idx =
           Inr (case filter m us of [] \<Rightarrow> idx | x # xs \<Rightarrow> index_of kpiList (last (x # xs)))"
  using assms
proof (induction us arbitrary: idx)
  case Nil
  then show ?case by simp
next
  case (Cons u us)
  then show ?case by (cases "filter m us") auto
qed



section \<open>The last matching expression is the one evaluated\<close>

text \<open>
  Claim C9. The runtime KPI name is passed to \<^verbatim>\<open>re.match\<close> as the pattern, with the flag
  \<^verbatim>\<open>re.I\<close>, against every user-defined expression (\<^verbatim>\<open>re.match\<close> anchors at the start of the
  string). When the pattern compiles: if no expression matches, the runtime KPI is
  skipped (the state is unchanged); otherwise the index selected is one of the last
  matching expression of the list, and that expression is the one parsed and evaluated.
\<close>

theorem last_matching_expression_is_evaluated:
  assumes compiles: "\<forall>u \<in> set kpiList. re_match B runtimeKpi u [re_I] = Inr (m u)"
  shows "(filter m kpiList = [] \<longrightarrow>
            select_index B runtimeKpi kpiList = Inr None \<and>
            process_runtime_kpi B ops statName kpiList s (runtimeKpi, value) = Inr s) \<and>
         (filter m kpiList \<noteq> [] \<longrightarrow>
            (\<exists>i < length kpiList.
               select_index B runtimeKpi kpiList = Inr (Some i) \<and>
               kpiList ! i = last (filter m kpiList)) \<and>
            process_runtime_kpi B ops statName kpiList s (runtimeKpi, value) =
              (case expected_of (last (filter m kpiList)) (fst s) of
                 Inl err \<Rightarrow> Inl err
               | Inr expected \<Rightarrow>
                  (case evaluate_kpi B ops (last (filter m kpiList)) expected value of
                     Inl err \<Rightarrow> Inl err
                   | Inr (kpi, entry) \<Rightarrow>
                      (case tracker_update (snd s) statName kpi entry of
                         Inl err \<Rightarrow> Inl err
                       | Inr tracker \<Rightarrow> Inr (expected, tracker)))))"
proof (cases "filter m kpiList")
  case Nil
  then have "select_index B runtimeKpi kpiList = Inr None"
    unfolding select_index_def by (simp add: select_loop_filter [OF compiles])
  with Nil show ?thesis by (simp add: process_runtime_kpi_def)
next
  case (Cons x xs)
  let ?e = "last (filter m kpiList)"
  have "?e \<in> set (filter m kpiList)" using Cons by (metis last_in_set list.distinct(1))
  then have "?e \<in> set kpiList" by simp
  from index_of_mem [OF this] obtain i where
    i: "index_of kpiList ?e = Some i" "i < length kpiList" "kpiList ! i = ?e" by blast
  have sel: "select_index B runtimeKpi kpiList = Inr (Some i)"
    unfolding select_index_def using Cons i(1) by (simp add: select_loop_filter [OF compiles])
  have it: "item kpiList i = Inr ?e" using i by (simp add: item_def)
  have "process_runtime_kpi B ops statName kpiList s (runtimeKpi, value) =
              (case expected_of ?e (fst s) of
                 Inl err \<Rightarrow> Inl err
               | Inr expected \<Rightarrow>
                  (case evaluate_kpi B ops ?e expected value of
                     Inl err \<Rightarrow> Inl err
                   | Inr (kpi, entry) \<Rightarrow>
                      (case tracker_update (snd s) statName kpi entry of
                         Inl err \<Rightarrow> Inl err
                       | Inr tracker \<Rightarrow> Inr (expected, tracker))))"
    unfolding process_runtime_kpi_def using sel it by (simp cong: sum.case_cong)
  with sel i Cons show ?thesis by auto
qed


theorem last_matching_expression_is_evaluated_witness:
  "select_index plain_builtins ''foo'' [''Foo<=5'', ''FOO>=10''] = Inr (Some 1)
   \<and> select_index plain_builtins ''foo'' [''Bar<=1'', ''Baz=1''] = Inr None"
proof -
  let ?m = "\<lambda>u. prefix ''foo'' (map lower u)"
  let ?L = "[''Foo<=5'', ''FOO>=10'']"
  have c1: "\<forall>u \<in> set ?L. re_match plain_builtins ''foo'' u [re_I] = Inr (?m u)"
    by (simp add: plain_builtins_def literal_match_def lower_def index_of_def)
  have c2: "\<forall>u \<in> set [''Bar<=1'', ''Baz=1''].
              re_match plain_builtins ''foo'' u [re_I] = Inr (?m u)"
    by (simp add: plain_builtins_def literal_match_def lower_def index_of_def)
  have f1: "filter ?m ?L = ?L"
    by (simp add: lower_def index_of_def)
  have f2: "filter ?m [''Bar<=1'', ''Baz=1''] = []"
    by (simp add: lower_def index_of_def)
  have ne: "filter ?m ?L \<noteq> []" unfolding f1 by simp
  from last_matching_expression_is_evaluated
         [OF c1, of operators "''stat''" "(None, Map.empty)" "Series []"] ne
  obtain i where i: "i < length ?L" "select_index plain_builtins ''foo'' ?L = Inr (Some i)"
      "?L ! i = last (filter ?m ?L)"
    by blast
  from i(3) have "?L ! i = ''FOO>=10''" unfolding f1 by simp
  with i(1) have "i = 1" by (cases i) auto
  with i(2) have a: "select_index plain_builtins ''foo'' ?L = Inr (Some 1)" by simp
  from last_matching_expression_is_evaluated
         [OF c2, of operators "''stat''" "(None, Map.empty)" "Series []"] f2
  have b: "select_index plain_builtins ''foo'' [''Bar<=1'', ''Baz=1''] = Inr None"
    by blast
  from a b show ?thesis by simp
qed

section \<open>The two parsers of KPI names\<close>


text \<open>
  Claim C4, at the expression \<^verbatim>\<open>'Foo <=5'\<close>: \<^verbatim>\<open>createKpiTracker\<close> keeps the name \<^verbatim>\<open>'Foo '\<close>
  with its trailing space, the polling loop strips it to \<^verbatim>\<open>'Foo'\<close>; the value taken is
  the substring after the operator. The tracker built for the test case has no key
  \<^verbatim>\<open>'Foo'\<close>, and recording the result in the polling loop raises \<^verbatim>\<open>KeyError\<close>.
\<close>

theorem kpi_name_parsers_disagree:
  "tracker_kpi ''Foo <=5'' None = Inr (Some ''Foo '')
   \<and> expected_of ''Foo <=5'' None = Inr (Some (''<='', ''5''))
   \<and> map_sum id fst (evaluate_kpi plain_builtins operators ''Foo <=5'' (Some (''<='', ''5''))
                        (Series [3])) = Inr ''Foo''
   \<and> (\<exists>tracker. createKpiTracker [(''stat'', [''Foo <=5''])] = Inr tracker
        \<and> process_runtime_kpi plain_builtins operators ''stat'' [''Foo <=5''] (None, tracker)
             (''Foo'', Series [3]) = Inl KeyError)"
  by (simp add: tracker_kpi_def expected_of_def evaluate_kpi_def item_def stat_max_def py_max_def
        compare_result_def plain_builtins_def float_of_digits_def int_of_digits_def index_of_def
        operators_def strip_def is_space_def createKpiTracker_def process_runtime_kpi_def
        select_index_def literal_match_def lower_def tracker_update_def)

section \<open>Comparison of the running maximum with the threshold\<close>


text \<open>
  Without a list of samples to take the maximum of, line 2034 raises: \<^verbatim>\<open>max([])\<close> is a
  \<^verbatim>\<open>ValueError\<close>, and \<^verbatim>\<open>max\<close> of the number that \<^verbatim>\<open>getAllStats\<close> returns for a response
  without a \<^verbatim>\<open>timestamp\<close> column is a \<^verbatim>\<open>TypeError\<close>.
\<close>

lemma kpi_without_samples_raises:
  assumes sel: "select_index B runtimeKpi kpiList = Inr (Some i)"
      and expr: "kpiList ! i = name @ OP @ v"
      and op: "OP \<in> set [''<='', ''>='', ''<'', ''>'', ''=='']"
      and name: "set name \<inter> set ''<>='' = {}"
      and val: "set v \<inter> set ''<>='' = {}"
  shows "process_runtime_kpi B ops statName kpiList (prev, tracker) (runtimeKpi, Series []) =
           Inl ValueError"
    and "process_runtime_kpi B ops statName kpiList (prev, tracker) (runtimeKpi, Total number) =
           Inl TypeError"
proof -
  let ?key = "if OP = ''=='' then ''='' else OP"
  have it: "item kpiList i = Inr (name @ OP @ v)"
    using select_index_bound [OF sel] expr by (simp add: item_def)
  have ex: "expected_of (name @ OP @ v) prev = Inr (Some (?key, v))"
    by (rule expected_of_form [OF op name val])
  have nm: "item (split ?key (name @ OP @ v)) 0 = Inr name"
    by (rule name_of_form [OF op name])
  show "process_runtime_kpi B ops statName kpiList (prev, tracker) (runtimeKpi, Series []) =
          Inl ValueError"
    unfolding process_runtime_kpi_def using sel it ex nm
    by (simp add: evaluate_kpi_def stat_max_def py_max_def)
  show "process_runtime_kpi B ops statName kpiList (prev, tracker) (runtimeKpi, Total number) =
          Inl TypeError"
    unfolding process_runtime_kpi_def using sel it ex nm
    by (simp add: evaluate_kpi_def stat_max_def)
qed

subsection \<open>The keys of the tracker\<close>













subsection \<open>The entry recorded by a pass of the loop\<close>
















section \<open>Range expectations\<close>

text \<open>
  Claim C2 says that a range expectation \<open>min-max\<close> passes exactly when the running
  maximum lies in the inclusive range. At the expression \<^verbatim>\<open>'Foo=1-5'\<close> and the samples
  \<open>3\<close> and \<open>3.5\<close> the maximum \<open>3.5\<close> lies between 1 and 5, and the code records
  \<^verbatim>\<open>failed\<close>: \<^verbatim>\<open>maxValue in range(1, 6)\<close> holds for the integers 1 to 5 only.
\<close>

theorem range_check_rejects_fractional_maximum:
  "process_runtime_kpi plain_builtins operators ''stat'' [''Foo=1-5'']
     (None, [''stat'' \<mapsto> [''Foo'' \<mapsto> empty_entry]]) (''Foo'', Series [3, 7 / 2]) =
   Inr (Some (''='', ''1-5''),
        [''stat'' \<mapsto> [''Foo'' \<mapsto>
           \<lparr>kpi_result = Some ''failed'', kpi_expectedValue = Some ''=1-5'',
            kpi_maxValue = Some (7 / 2)\<rparr>]])"
  by (simp add: expected_of_def evaluate_kpi_def item_def stat_max_def py_max_def
        range_result_def plain_builtins_def int_of_digits_def index_of_def
        strip_def is_space_def process_runtime_kpi_def in_range_def upto.simps
        select_index_def literal_match_def lower_def tracker_update_def)

section \<open>One pass of the polling loop: sleep and countdown\<close>

text \<open>
  Claim C8. When the pass of the loop does not end in \<^verbatim>\<open>break\<close> (the statistics were
  processed, the session status is neither \<^verbatim>\<open>STOPPING\<close> nor \<^verbatim>\<open>STOPPED\<close>), the loop sleeps
  \<open>p * 100\<close> seconds for a configured \<^verbatim>\<open>pollStatInterval\<close> \<open>p\<close> (not negative), and 30
  seconds when it is unset, while the remaining duration is decremented by \<open>p\<close> only
  (by 0.30 when unset).
\<close>

theorem poll_interval_sleep_and_countdown:
  assumes stats: "poll_stats B ops KPI (stats_responses env t) (map fst KPI)
                    (expected_vars s, kpiStatTracker s) = Inr (ex, tracker)"
      and status: "getSessionStatus (session_responses env t) = Inr status"
      and running: "status \<noteq> ''STOPPING''" "status \<noteq> ''STOPPED''"
      and nonneg: "\<forall>p. pollStatInterval = Some p \<longrightarrow> 0 \<le> p"
  shows "poll_iteration B ops KPI pollStatInterval env t s =
           Inr (False,
                s\<lparr>expected_vars := ex, kpiStatTracker := tracker,
                  status_log := status_log s @ [status],
                  sleeps := sleeps s @ [case pollStatInterval of None \<Rightarrow> 30 | Some p \<Rightarrow> p * 100],
                  testConfiguredDuration :=
                    testConfiguredDuration s
                      - (case pollStatInterval of None \<Rightarrow> 3 / 10 | Some p \<Rightarrow> p),
                  testcaseData_KPIs := True\<rparr>)"
  using assms
  by (cases pollStatInterval) (simp_all add: poll_iteration_def Let_def not_less mult_nonneg_nonneg)

theorem poll_interval_sleep_and_countdown_witness:
  "poll_iteration plain_builtins operators [(''stat'', [''Foo>=1''])] (Some (1 / 2)) demo_env 0
     demo_state =
   Inr (False,
        \<lparr>expected_vars = None, kpiStatTracker = Map.empty, testConfiguredDuration = 3 / 2,
         sleeps = [50], status_log = [''STARTED''], testcaseData_KPIs = True\<rparr>)
   \<and> poll_iteration plain_builtins operators [(''stat'', [''Foo>=1''])] None demo_env 0
       demo_state =
     Inr (False,
        \<lparr>expected_vars = None, kpiStatTracker = Map.empty, testConfiguredDuration = 17 / 10,
         sleeps = [30], status_log = [''STARTED''], testcaseData_KPIs = True\<rparr>)"
proof -
  let ?KPI = "[(''stat'', [''Foo>=1''])]"
  have st: "poll_stats plain_builtins operators ?KPI (stats_responses demo_env 0) (map fst ?KPI)
               (expected_vars demo_state, kpiStatTracker demo_state) = Inr (None, Map.empty)"
    by (simp add: demo_env_def demo_state_def getAllStats_def)
  have g0: "getSessionStatus (session_responses demo_env 0) = Inr ''STARTED''"
    by (simp add: demo_env_def getSessionStatus_def)
  have r1: "''STARTED'' \<noteq> ''STOPPING''" and r2: "''STARTED'' \<noteq> ''STOPPED''" by simp_all
  have n1: "\<forall>p. Some (1 / 2 :: rat) = Some p \<longrightarrow> 0 \<le> p" by simp
  have n2: "\<forall>p :: rat. None = Some p \<longrightarrow> 0 \<le> p" by simp
  from poll_interval_sleep_and_countdown [OF st g0 r1 r2 n1]
       poll_interval_sleep_and_countdown [OF st g0 r1 r2 n2]
  show ?thesis by (simp add: demo_state_def)
qed


section \<open>Leaving the polling loop\<close>

lemma poll_iteration_result:
  assumes "poll_iteration B ops KPI pollStatInterval env t s = Inr (stop, s')"
  shows "fst (session_responses env t) = 200
       \<and> status_log s' = status_log s @ [snd (session_responses env t)]
       \<and> (stop \<longleftrightarrow> snd (session_responses env t) \<in> set [''STOPPING'', ''STOPPED''])
       \<and> sleeps s' = sleeps s @
            (if stop then []
             else [case pollStatInterval of None \<Rightarrow> 30 | Some p \<Rightarrow> p * 100])"
  using assms
  by (cases pollStatInterval)
     (auto simp: poll_iteration_def getSessionStatus_def Let_def
           split: sum.splits if_splits prod.splits)

lemma poll_loop_exit_trace:
  assumes run: "poll_loop B ops KPI pollStatInterval env t s = Some r"
  shows "\<forall>s'. r = Inr s' \<longrightarrow>
           (\<exists>n. snd (session_responses env (t + n)) \<in> set [''STOPPING'', ''STOPPED'']
              \<and> (\<forall>j. t \<le> j \<and> j < t + n \<longrightarrow>
                     snd (session_responses env j) \<notin> set [''STOPPING'', ''STOPPED''])
              \<and> status_log s' =
                  status_log s @ map (\<lambda>j. snd (session_responses env j)) [t..<Suc (t + n)]
              \<and> sleeps s' =
                  sleeps s @ replicate n
                     (case pollStatInterval of None \<Rightarrow> 30 | Some p \<Rightarrow> p * 100))"
proof -
  let ?stops = "set [''STOPPING'', ''STOPPED'']"
  let ?P = "\<lambda>(B :: builtins) (ops :: operator_table) (KPI :: (string \<times> string list) list)
              pollStatInterval env t s r.
      \<forall>s'. r = Inr s' \<longrightarrow>
           (\<exists>n. snd (session_responses env (t + n)) \<in> ?stops
              \<and> (\<forall>j. t \<le> j \<and> j < t + n \<longrightarrow> snd (session_responses env j) \<notin> ?stops)
              \<and> status_log s' =
                  status_log s @ map (\<lambda>j. snd (session_responses env j)) [t..<Suc (t + n)]
              \<and> sleeps s' =
                  sleeps s @ replicate n
                     (case pollStatInterval of None \<Rightarrow> 30 | Some p \<Rightarrow> p * 100))"
  have "?P B ops KPI pollStatInterval env t s r"
  proof (rule poll_loop.raw_induct [where P = ?P, OF _ run])
    fix loop B ops KPI pollStatInterval env t s r
    assume IH: "\<And>B ops KPI pollStatInterval env t s r.
                  loop B ops KPI pollStatInterval env t s = Some r \<Longrightarrow>
                  ?P B ops KPI pollStatInterval env t s r"
      and eq: "(case poll_iteration B ops KPI pollStatInterval env t s of
                  Inl e \<Rightarrow> Some (Inl e)
                | Inr (stop, s') \<Rightarrow>
                    if stop then Some (Inr s')
                    else loop B ops KPI pollStatInterval env (Suc t) s') = Some r"
    show "?P B ops KPI pollStatInterval env t s r"
    proof (intro allI impI)
      fix s' assume r: "r = Inr s'"
      from eq r obtain stop s1 where
        it: "poll_iteration B ops KPI pollStatInterval env t s = Inr (stop, s1)"
        by (auto split: sum.splits)
      note res = poll_iteration_result [OF it]
      show "\<exists>n. snd (session_responses env (t + n)) \<in> ?stops
              \<and> (\<forall>j. t \<le> j \<and> j < t + n \<longrightarrow> snd (session_responses env j) \<notin> ?stops)
              \<and> status_log s' =
                  status_log s @ map (\<lambda>j. snd (session_responses env j)) [t..<Suc (t + n)]
              \<and> sleeps s' =
                  sleeps s @ replicate n
                     (case pollStatInterval of None \<Rightarrow> 30 | Some p \<Rightarrow> p * 100)"
      proof (cases stop)
        case True
        with eq it r have "s' = s1" by simp
        with res True show ?thesis by (intro exI [of _ 0]) auto
      next
        case False
        with eq it r have "loop B ops KPI pollStatInterval env (Suc t) s1 = Some (Inr s')"
          by simp
        from IH [OF this] obtain n where n:
          "snd (session_responses env (Suc t + n)) \<in> ?stops"
          "\<forall>j. Suc t \<le> j \<and> j < Suc t + n \<longrightarrow> snd (session_responses env j) \<notin> ?stops"
          "status_log s' =
             status_log s1 @ map (\<lambda>j. snd (session_responses env j)) [Suc t..<Suc (Suc t + n)]"
          "sleeps s' = sleeps s1 @ replicate n
                       (case pollStatInterval of None \<Rightarrow> 30 | Some p \<Rightarrow> p * 100)"
          by blast
        have notstop: "snd (session_responses env t) \<notin> ?stops"
          using res False by blast
        have "\<forall>j. t \<le> j \<and> j < t + Suc n \<longrightarrow> snd (session_responses env j) \<notin> ?stops"
        proof (intro allI impI)
          fix j assume "t \<le> j \<and> j < t + Suc n"
          then have "j = t \<or> (Suc t \<le> j \<and> j < Suc t + n)" by arith
          with notstop n(2) show "snd (session_responses env j) \<notin> ?stops"
            by blast
        qed
        moreover have "[t..<Suc (t + Suc n)] = t # [Suc t..<Suc (Suc t + n)]"
          by (simp add: upt_conv_Cons)
        then have "status_log s' =
                    status_log s @ map (\<lambda>j. snd (session_responses env j)) [t..<Suc (t + Suc n)]"
          using n(3) res by simp
        moreover have "sleeps s' = sleeps s @ replicate (Suc n)
                       (case pollStatInterval of None \<Rightarrow> 30 | Some p \<Rightarrow> p * 100)"
          using n(4) res False by simp
        moreover have "snd (session_responses env (t + Suc n)) \<in> ?stops"
          using n(1) by simp
        ultimately show ?thesis by (intro exI [of _ "Suc n"]) blast
      qed
    qed
  qed
  then show ?thesis .
qed

text \<open>
  Claim C5. The loop exits normally exactly when the session status is \<^verbatim>\<open>STOPPING\<close> or
  \<^verbatim>\<open>STOPPED\<close>. First part: whenever the loop returns normally, the status of the last
  poll is one of the two, no earlier poll reported one of them, and every earlier poll
  was followed by a sleep. Second part: a pass whose statistics and status request
  succeed returns at once when the status is one of the two, and otherwise sleeps
  and goes on with the next poll.
\<close>

theorem polling_loop_exits_on_stopping_or_stopped:
  "(\<forall>s'. poll_loop B ops KPI pollStatInterval env t s = Some (Inr s') \<longrightarrow>
      (\<exists>n. snd (session_responses env (t + n)) \<in> set [''STOPPING'', ''STOPPED'']
          \<and> (\<forall>j. t \<le> j \<and> j < t + n \<longrightarrow>
                 snd (session_responses env j) \<notin> set [''STOPPING'', ''STOPPED''])
          \<and> status_log s' =
              status_log s @ map (\<lambda>j. snd (session_responses env j)) [t..<Suc (t + n)]
          \<and> sleeps s' =
              sleeps s @ replicate n
                 (case pollStatInterval of None \<Rightarrow> 30 | Some p \<Rightarrow> p * 100)))
   \<and> (\<forall>ex tracker status.
        poll_stats B ops KPI (stats_responses env t) (map fst KPI)
          (expected_vars s, kpiStatTracker s) = Inr (ex, tracker)
        \<and> getSessionStatus (session_responses env t) = Inr status \<longrightarrow>
        poll_loop B ops KPI pollStatInterval env t s =
          (if status \<in> set [''STOPPING'', ''STOPPED'']
           then Some (Inr (s\<lparr>expected_vars := ex, kpiStatTracker := tracker,
                             status_log := status_log s @ [status]\<rparr>))
           else if (case pollStatInterval of None \<Rightarrow> 30 | Some p \<Rightarrow> p * 100) < 0
           then Some (Inl ValueError)
           else poll_loop B ops KPI pollStatInterval env (Suc t)
                  (s\<lparr>expected_vars := ex, kpiStatTracker := tracker,
                     status_log := status_log s @ [status],
                     sleeps := sleeps s @
                       [case pollStatInterval of None \<Rightarrow> 30 | Some p \<Rightarrow> p * 100],
                     testConfiguredDuration :=
                       testConfiguredDuration s
                         - (case pollStatInterval of None \<Rightarrow> 3 / 10 | Some p \<Rightarrow> p),
                     testcaseData_KPIs := True\<rparr>)))"
proof (intro conjI allI impI)
  fix s' assume "poll_loop B ops KPI pollStatInterval env t s = Some (Inr s')"
  from poll_loop_exit_trace [OF this]
  show "\<exists>n. snd (session_responses env (t + n)) \<in> set [''STOPPING'', ''STOPPED'']
          \<and> (\<forall>j. t \<le> j \<and> j < t + n \<longrightarrow>
                 snd (session_responses env j) \<notin> set [''STOPPING'', ''STOPPED''])
          \<and> status_log s' =
              status_log s @ map (\<lambda>j. snd (session_responses env j)) [t..<Suc (t + n)]
          \<and> sleeps s' =
              sleeps s @ replicate n
                 (case pollStatInterval of None \<Rightarrow> 30 | Some p \<Rightarrow> p * 100)"
    by blast
next
  fix ex tracker status
  assume a: "poll_stats B ops KPI (stats_responses env t) (map fst KPI)
          (expected_vars s, kpiStatTracker s) = Inr (ex, tracker)
        \<and> getSessionStatus (session_responses env t) = Inr status"
  show "poll_loop B ops KPI pollStatInterval env t s =
          (if status \<in> set [''STOPPING'', ''STOPPED'']
           then Some (Inr (s\<lparr>expected_vars := ex, kpiStatTracker := tracker,
                             status_log := status_log s @ [status]\<rparr>))
           else if (case pollStatInterval of None \<Rightarrow> 30 | Some p \<Rightarrow> p * 100) < 0
           then Some (Inl ValueError)
           else poll_loop B ops KPI pollStatInterval env (Suc t)
                  (s\<lparr>expected_vars := ex, kpiStatTracker := tracker,
                     status_log := status_log s @ [status],
                     sleeps := sleeps s @
                       [case pollStatInterval of None \<Rightarrow> 30 | Some p \<Rightarrow> p * 100],
                     testConfiguredDuration :=
                       testConfiguredDuration s
                         - (case pollStatInterval of None \<Rightarrow> 3 / 10 | Some p \<Rightarrow> p),
                     testcaseData_KPIs := True\<rparr>))"
    using a
    by (subst poll_loop.simps, cases pollStatInterval)
       (simp_all add: poll_iteration_def Let_def)
qed

theorem polling_loop_exits_on_stopping_or_stopped_witness:
  "poll_loop plain_builtins operators [(''stat'', [''Foo>=1''])] None demo_env 0 demo_state =
     Some (Inr \<lparr>expected_vars = None, kpiStatTracker = Map.empty,
                testConfiguredDuration = 17 / 10, sleeps = [30],
                status_log = [''STARTED'', ''STOPPED''], testcaseData_KPIs = True\<rparr>)"
proof -
  let ?KPI = "[(''stat'', [''Foo>=1''])]"
  have st: "\<And>t s. poll_stats plain_builtins operators ?KPI (stats_responses demo_env t) (map fst ?KPI)
               (expected_vars s, kpiStatTracker s) = Inr (expected_vars s, kpiStatTracker s)"
    by (simp add: demo_env_def getAllStats_def)
  have g0: "getSessionStatus (session_responses demo_env 0) = Inr ''STARTED''"
    by (simp add: demo_env_def getSessionStatus_def)
  have g1: "getSessionStatus (session_responses demo_env (Suc 0)) = Inr ''STOPPED''"
    by (simp add: demo_env_def getSessionStatus_def)
  note th = polling_loop_exits_on_stopping_or_stopped
              [where B = plain_builtins and ops = operators and KPI = ?KPI
                 and pollStatInterval = None and env = demo_env]
  from th [of 0 demo_state, THEN conjunct2, rule_format, OF conjI [OF st g0]]
  have step0: "poll_loop plain_builtins operators ?KPI None demo_env 0 demo_state =
               poll_loop plain_builtins operators ?KPI None demo_env (Suc 0)
                 \<lparr>expected_vars = None, kpiStatTracker = Map.empty,
                   testConfiguredDuration = 17 / 10, sleeps = [30],
                   status_log = [''STARTED''], testcaseData_KPIs = True\<rparr>"
    by (simp add: demo_state_def)
  from th [of "Suc 0", THEN conjunct2, rule_format, OF conjI [OF st g1]]
  have step1: "\<And>s. poll_loop plain_builtins operators ?KPI None demo_env (Suc 0) s =
               Some (Inr (s\<lparr>expected_vars := expected_vars s, kpiStatTracker := kpiStatTracker s,
                             status_log := status_log s @ [''STOPPED'']\<rparr>))"
    by simp
  show ?thesis unfolding step0 step1 by simp
qed

section \<open>The dictionary returned by \<^verbatim>\<open>MW.getAllStats\<close>\<close>

lemma update_fresh: "k \<notin> fst ` set al \<Longrightarrow> AList.update k v al = al @ [(k, v)]"
  by (induction al) auto

lemma py_sum_sum_list: "py_sum xs = sum_list xs"
proof -
  have "foldl (+) a xs = a + sum_list xs" for a :: rat
    by (induction xs arbitrary: a) (simp_all add: add.assoc)
  from this [of 0] show ?thesis by (simp add: py_sum_def)
qed

lemma timestamp_column_values:
  assumes "\<forall>snap \<in> set snaps. snap \<noteq> [] \<and> Suc i < length (hd snap)
             \<and> cell_float B (hd snap ! Suc i) = Inr (v snap)"
  shows "timestamp_column B snaps i statList = Inr (statList @ map v snaps)"
  using assms
proof (induction snaps arbitrary: statList)
  case Nil
  then show ?case by simp
next
  case (Cons snap snaps)
  from Cons.prems obtain row rest where snap: "snap = row # rest" "Suc i < length row"
      "cell_float B (row ! Suc i) = Inr (v snap)"
    by (cases snap) auto
  then show ?case using Cons by (simp add: item_def)
qed

lemma total_column_values:
  assumes "\<forall>row \<in> set rows. Suc i < length row \<and> cell_float B (row ! Suc i) = Inr (v row)"
  shows "total_column B rows i statList = Inr (statList @ map v rows)"
  using assms
  by (induction rows arbitrary: statList) (simp_all add: item_def)

lemma timestamp_columns_values:
  assumes "\<forall>i \<in> set is. Suc i < length cols \<and>
             (\<forall>snap \<in> set snaps. snap \<noteq> [] \<and> Suc i < length (hd snap)
                \<and> cell_float B (hd snap ! Suc i) = Inr (v i snap))"
      and "distinct (map (\<lambda>i. cols ! Suc i) is)"
      and "\<forall>i \<in> set is. cols ! Suc i \<notin> fst ` set col"
  shows "timestamp_columns B cols snaps is col =
           Inr (col @ map (\<lambda>i. (cols ! Suc i, Series (map (v i) snaps))) is)"
  using assms
proof (induction "is" arbitrary: col)
  case Nil
  then show ?case by simp
next
  case (Cons i rest)
  have tc: "timestamp_column B snaps i [] = Inr (map (v i) snaps)"
    using timestamp_column_values [of snaps i B "v i" "[]"] Cons.prems(1) by simp
  have up: "AList.update (cols ! Suc i) (Series (map (v i) snaps)) col =
              col @ [(cols ! Suc i, Series (map (v i) snaps))]"
    using Cons.prems(3) by (simp add: update_fresh)
  have "timestamp_columns B cols snaps rest (col @ [(cols ! Suc i, Series (map (v i) snaps))]) =
          Inr ((col @ [(cols ! Suc i, Series (map (v i) snaps))]) @
               map (\<lambda>i. (cols ! Suc i, Series (map (v i) snaps))) rest)"
  proof (intro Cons.IH)
    show "\<forall>j \<in> set rest. cols ! Suc j \<notin> fst ` set (col @ [(cols ! Suc i, Series (map (v i) snaps))])"
    proof
      fix j assume j: "j \<in> set rest"
      with Cons.prems(2) have "cols ! Suc j \<noteq> cols ! Suc i" by (auto simp: image_iff)
      with j Cons.prems(3) show "cols ! Suc j \<notin> fst ` set (col @ [(cols ! Suc i, Series (map (v i) snaps))])"
        by auto
    qed
  qed (use Cons.prems in auto)
  with tc up Cons.prems(1) show ?case by (simp add: item_def)
qed

lemma total_columns_values:
  assumes "\<forall>i \<in> set is. Suc i < length cols \<and>
             (\<forall>row \<in> set rows. Suc i < length row \<and> cell_float B (row ! Suc i) = Inr (v i row))"
      and "distinct (map (\<lambda>i. cols ! Suc i) is)"
      and "\<forall>i \<in> set is. cols ! Suc i \<notin> fst ` set col"
  shows "total_columns B cols (rows # others) is col =
           Inr (col @ map (\<lambda>i. (cols ! Suc i, Total (sum_list (map (v i) rows)))) is)"
  using assms
proof (induction "is" arbitrary: col)
  case Nil
  then show ?case by simp
next
  case (Cons i rest)
  have tc: "total_column B rows i [] = Inr (map (v i) rows)"
    using total_column_values [of rows i B "v i" "[]"] Cons.prems(1) by simp
  have up: "AList.update (cols ! Suc i) (Total (sum_list (map (v i) rows))) col =
              col @ [(cols ! Suc i, Total (sum_list (map (v i) rows)))]"
    using Cons.prems(3) by (simp add: update_fresh)
  have "total_columns B cols (rows # others) rest
          (col @ [(cols ! Suc i, Total (sum_list (map (v i) rows)))]) =
          Inr ((col @ [(cols ! Suc i, Total (sum_list (map (v i) rows)))]) @
               map (\<lambda>i. (cols ! Suc i, Total (sum_list (map (v i) rows)))) rest)"
  proof (intro Cons.IH)
    show "\<forall>j \<in> set rest. cols ! Suc j \<notin> fst ` set (col @ [(cols ! Suc i, Total (sum_list (map (v i) rows)))])"
    proof
      fix j assume j: "j \<in> set rest"
      with Cons.prems(2) have "cols ! Suc j \<noteq> cols ! Suc i" by (auto simp: image_iff)
      with j Cons.prems(3) show "cols ! Suc j \<notin> fst ` set (col @ [(cols ! Suc i, Total (sum_list (map (v i) rows)))])"
        by auto
    qed
  qed (use Cons.prems in auto)
  with tc up Cons.prems(1) show ?case by (simp add: item_def py_sum_sum_list)
qed

lemma distinct_names_upt:
  "distinct names \<Longrightarrow> distinct (map (\<lambda>i. (first # names) ! Suc i) [0..<length names])"
  by (simp add: distinct_conv_nth)

text \<open>
  Claim C10. \<^verbatim>\<open>getAllStats\<close> returns \<^verbatim>\<open>None\<close> when the status code is not the expected one
  or \<^verbatim>\<open>columns\<close> is null. When the first column is \<^verbatim>\<open>timestamp\<close> it maps every other column
  name to the list of that column's values, converted by \<^verbatim>\<open>float\<close>, one per snapshot (the
  first row of the snapshot); otherwise it maps every other column name to the sum of
  that column's values over the rows of the first snapshot. (Column names distinct, every
  cell present and convertible; \<open>v i snap\<close> and \<open>w i row\<close> name the converted cells.)
\<close>

theorem getAllStats_result:
  "(status_code response \<noteq> statusCode \<longrightarrow> getAllStats B response statusCode = Inr None)
   \<and> (status_code response = statusCode \<and> columns (body response) = None \<longrightarrow>
        getAllStats B response statusCode = Inr None)
   \<and> (status_code response = statusCode
        \<and> columns (body response) = Some (''timestamp'' # names) \<and> distinct names
        \<and> (\<forall>i < length names. \<forall>snap \<in> set (snapshots (body response)).
              snap \<noteq> [] \<and> Suc i < length (hd snap)
              \<and> cell_float B (hd snap ! Suc i) = Inr (v i snap)) \<longrightarrow>
        getAllStats B response statusCode =
          Inr (Some (map (\<lambda>i. (names ! i, Series (map (v i) (snapshots (body response)))))
                       [0..<length names])))
   \<and> (status_code response = statusCode
        \<and> columns (body response) = Some (first # names) \<and> first \<noteq> ''timestamp''
        \<and> distinct names \<and> snapshots (body response) = rows # others
        \<and> (\<forall>i < length names. \<forall>row \<in> set rows.
              Suc i < length row \<and> cell_float B (row ! Suc i) = Inr (w i row)) \<longrightarrow>
        getAllStats B response statusCode =
          Inr (Some (map (\<lambda>i. (names ! i, Total (sum_list (map (w i) rows))))
                       [0..<length names])))"
proof (intro conjI impI)
  show "status_code response \<noteq> statusCode \<Longrightarrow> getAllStats B response statusCode = Inr None"
    by (simp add: getAllStats_def)
next
  show "status_code response = statusCode \<and> columns (body response) = None \<Longrightarrow>
        getAllStats B response statusCode = Inr None"
    by (simp add: getAllStats_def)
next
  assume a: "status_code response = statusCode
        \<and> columns (body response) = Some (''timestamp'' # names) \<and> distinct names
        \<and> (\<forall>i < length names. \<forall>snap \<in> set (snapshots (body response)).
              snap \<noteq> [] \<and> Suc i < length (hd snap)
              \<and> cell_float B (hd snap ! Suc i) = Inr (v i snap))"
  have "timestamp_columns B (''timestamp'' # names) (snapshots (body response))
          [0..<length names] [] =
        Inr ([] @ map (\<lambda>i. ((''timestamp'' # names) ! Suc i,
                           Series (map (v i) (snapshots (body response))))) [0..<length names])"
    using a by (intro timestamp_columns_values) (auto simp: distinct_conv_nth)
  with a show "getAllStats B response statusCode =
          Inr (Some (map (\<lambda>i. (names ! i, Series (map (v i) (snapshots (body response)))))
                       [0..<length names]))"
    by (simp add: getAllStats_def item_def)
next
  assume a: "status_code response = statusCode
        \<and> columns (body response) = Some (first # names) \<and> first \<noteq> ''timestamp''
        \<and> distinct names \<and> snapshots (body response) = rows # others
        \<and> (\<forall>i < length names. \<forall>row \<in> set rows.
              Suc i < length row \<and> cell_float B (row ! Suc i) = Inr (w i row))"
  have "total_columns B (first # names) (rows # others) [0..<length names] [] =
        Inr ([] @ map (\<lambda>i. ((first # names) ! Suc i, Total (sum_list (map (w i) rows))))
                    [0..<length names])"
    using a by (intro total_columns_values) (auto simp: distinct_conv_nth)
  with a show "getAllStats B response statusCode =
          Inr (Some (map (\<lambda>i. (names ! i, Total (sum_list (map (w i) rows))))
                       [0..<length names]))"
    by (simp add: getAllStats_def item_def)
qed

theorem getAllStats_result_witness:
  "getAllStats plain_builtins demo_series 200 =
     Inr (Some [(''A'', Series [2, 5]), (''B'', Series [3, 7])])
   \<and> getAllStats plain_builtins demo_totals 200 = Inr (Some [(''A'', Total (11 / 2))])
   \<and> getAllStats plain_builtins demo_series 201 = Inr None"
proof -
  let ?v = "\<lambda>i snap. projr (cell_float plain_builtins (hd snap ! Suc i))"
  let ?w = "\<lambda>i row. projr (cell_float plain_builtins (row ! Suc i))"
  note th1 = getAllStats_result
    [where response = demo_series and statusCode = 200 and B = plain_builtins
       and names = "[''A'', ''B'']" and v = ?v, THEN conjunct2, THEN conjunct2, THEN conjunct1]
  have h1: "status_code demo_series = 200
        \<and> columns (body demo_series) = Some (''timestamp'' # [''A'', ''B'']) \<and> distinct [''A'', ''B'']
        \<and> (\<forall>i < length [''A'', ''B'']. \<forall>snap \<in> set (snapshots (body demo_series)).
              snap \<noteq> [] \<and> Suc i < length (hd snap)
              \<and> cell_float plain_builtins (hd snap ! Suc i) = Inr (?v i snap))"
    by (auto simp: demo_series_def less_Suc_eq numeral_2_eq_2 cell_float_def plain_builtins_def
          float_of_digits_def int_of_digits_def index_of_def)
  have a: "getAllStats plain_builtins demo_series 200 =
     Inr (Some [(''A'', Series [2, 5]), (''B'', Series [3, 7])])"
    using th1 [rule_format, OF h1]
    by (simp add: demo_series_def cell_float_def plain_builtins_def
          float_of_digits_def int_of_digits_def index_of_def numeral_2_eq_2)
  note th2 = getAllStats_result
    [where response = demo_totals and statusCode = 200 and B = plain_builtins
       and names = "[''A'']" and first = "''name''" and w = ?w
       and rows = "[[JStr ''x'', JNum 2], [JStr ''y'', JNum (7 / 2)]]" and others = "[]",
     THEN conjunct2, THEN conjunct2, THEN conjunct2]
  have h2: "status_code demo_totals = 200
        \<and> columns (body demo_totals) = Some (''name'' # [''A'']) \<and> ''name'' \<noteq> ''timestamp''
        \<and> distinct [''A'']
        \<and> snapshots (body demo_totals) = [[JStr ''x'', JNum 2], [JStr ''y'', JNum (7 / 2)]] # []
        \<and> (\<forall>i < length [''A'']. \<forall>row \<in> set [[JStr ''x'', JNum 2], [JStr ''y'', JNum (7 / 2)]].
              Suc i < length row \<and> cell_float plain_builtins (row ! Suc i) = Inr (?w i row))"
    by (auto simp: demo_totals_def cell_float_def)
  have b: "getAllStats plain_builtins demo_totals 200 = Inr (Some [(''A'', Total (11 / 2))])"
    using th2 [rule_format, OF h2] by (simp add: cell_float_def)
  have c: "getAllStats plain_builtins demo_series 201 = Inr None"
    using getAllStats_result [where response = demo_series and statusCode = 201
                                and B = plain_builtins, THEN conjunct1]
    by (simp add: demo_series_def)
  from a b c show ?thesis by simp
qed

section \<open>CSV to JSON\<close>




section \<open>The retry of \<^verbatim>\<open>startTest\<close>\<close>

text \<open>
  When the first operation reports neither the expected state nor \<^verbatim>\<open>ERROR\<close> for the whole
  wait budget, the \<^verbatim>\<open>else\<close> of the \<^verbatim>\<open>while\<close> runs the recovery and posts the start operation
  again, and the statements after the loop raise: the second operation is never polled.
\<close>

lemma start_loop_timeout:
  assumes "\<forall>k < n. \<exists>st. op_state (poll_json env 0 (k0 + k)) = Some st
                        \<and> st \<noteq> result \<and> st \<noteq> ''ERROR''"
  shows "start_loop env result statusCode waitTime (int n) 0 k0 state s =
           (case recover_after_timeout env statusCode
                   (s\<lparr>events := events s @
                        concat (map (\<lambda>k. [GetState 0 k, Sleep2]) [k0..<k0 + n])\<rparr>) of
              Inl e \<Rightarrow>
                (Inl e, s\<lparr>events := events s @
                          concat (map (\<lambda>k. [GetState 0 k, Sleep2]) [k0..<k0 + n])\<rparr>)
            | Inr s' \<Rightarrow>
                (Inl (raise_start_failure
                        (if n = 0 then state else Some (poll_json env 0 (k0 + n - 1)))), s'))"
  using assms
proof (induction n arbitrary: k0 state s)
  case 0
  show ?case by (subst start_loop.simps) (simp cong: sum.case_cong)
next
  case (Suc n)
  from Suc.prems [rule_format, of 0] obtain st where
    st: "op_state (poll_json env 0 k0) = Some st" "st \<noteq> result" "st \<noteq> ''ERROR''"
    by auto
  have rest: "\<forall>k < n. \<exists>st. op_state (poll_json env 0 (Suc k0 + k)) = Some st
                        \<and> st \<noteq> result \<and> st \<noteq> ''ERROR''"
    using Suc.prems by (metis Suc_less_eq add_Suc_shift)
  have up: "[k0..<Suc (k0 + n)] = k0 # [Suc k0..<Suc (k0 + n)]"
    by (simp add: upt_conv_Cons)
  have step: "start_loop env result statusCode waitTime (int (Suc n)) 0 k0 state s =
        start_loop env result statusCode waitTime (int n) 0 (Suc k0) (Some (poll_json env 0 k0))
          (s\<lparr>events := events s @ [GetState 0 k0, Sleep2]\<rparr>)"
    by (subst start_loop.simps) (simp add: st Let_def)
  note ih = Suc.IH [OF rest, of "Some (poll_json env 0 k0)"
                     "s\<lparr>events := events s @ [GetState 0 k0, Sleep2]\<rparr>"]
  have last: "(if n = 0 then Some (poll_json env 0 k0)
               else Some (poll_json env 0 (Suc k0 + n - 1))) =
              Some (poll_json env 0 (k0 + Suc n - 1))"
    by (cases n) simp_all
  show ?case
    unfolding step ih last
    by (simp add: up del: upt_Suc cong: sum.case_cong)
qed

text \<open>
  The retry after \<^verbatim>\<open>ERROR\<close>, in contrast, polls the second operation and returns its
  JSON, recording the test id.
\<close>

lemma startTest_retry_after_error:
  "startTest error_start_env ''SUCCESS'' 90 202 =
     (Inr \<lparr>op_state = Some ''SUCCESS'', op_message = Some [], op_resultUrl = None\<rparr>,
      \<lparr>events = [PostStart, GetState 0 0, VerifyLicenseSettings, CheckSessionStateStopped,
                 RebootAgents, VerifyAllAgentsStatusUp, VerifyLicenseSettings, PostStart, Sleep2,
                 GetState 1 0, GetTestId],
       testId = Some ''wireless-1''\<rparr>)"
  by (simp add: startTest_def post_start_def recover_after_error_def error_start_env_def
        start_loop.simps [of _ _ _ _ 90] start_loop.simps [of _ _ _ _ 89] Let_def)

text \<open>
  Claim C3 says that after the wait budget of the first attempt is exhausted the start
  operation is posted again with a fresh wait budget, and that an attempt reaching
  \<^verbatim>\<open>SUCCESS\<close> makes \<^verbatim>\<open>startTest\<close> record the test id and return. With the default arguments
  and a middleware whose first operation stays \<^verbatim>\<open>IN_PROGRESS\<close> for 90 polls and whose
  second operation would report \<^verbatim>\<open>SUCCESS\<close> at once, \<^verbatim>\<open>startTest\<close> posts the start operation
  twice and raises right after the second POST, without one GET of the second
  operation and without a test id.
\<close>

theorem startTest_timeout_never_polls_retry:
  "startTest slow_start_env ''SUCCESS'' 90 202 =
     (Inl AbortingTest,
      \<lparr>events = PostStart # concat (map (\<lambda>k. [GetState 0 k, Sleep2]) [0..<90]) @
                 [StopTest, CheckSessionStateStopped, VerifyLicenseSettings, RebootAgents,
                  VerifyAllAgentsStatusUp, VerifyLicenseSettings, PostStart],
       testId = None\<rparr>)"
proof -
  have "\<forall>k < 90. \<exists>st. op_state (poll_json slow_start_env 0 (0 + k)) = Some st
                        \<and> st \<noteq> ''SUCCESS'' \<and> st \<noteq> ''ERROR''"
    by (simp add: slow_start_env_def)
  from start_loop_timeout [OF this, of 202 90 None "\<lparr>events = [PostStart], testId = None\<rparr>"]
  show ?thesis
    by (simp add: startTest_def post_start_def recover_after_timeout_def raise_start_failure_def
          slow_start_env_def)
qed


section \<open>Results of the artifact retrievals\<close>

text \<open>
  The three retrievals return \<^verbatim>\<open>None\<close> when the generate request has an unexpected status
  code, and when the polling ends with \<^verbatim>\<open>ERROR\<close> or with the budget used up.
\<close>

lemma artifacts_none_on_unexpected_status:
  assumes "art_test_id env = Inr testID" and "generate_status env \<noteq> statusCode"
  shows "map_sum id fst (getPDFreport env io_error folder name wait statusCode s) = Inr None"
    and "map_sum id fst (getCSVs L env io_error folder name sel conv wait statusCode s) = Inr None"
    and "map_sum id fst (getCapturedLogs env io_error folder name wait statusCode s) = Inr None"
  using assms by (simp_all add: getPDFreport_def getCSVs_def getCapturedLogs_def)

lemma artifacts_none_on_error_or_timeout:
  assumes "art_test_id env = Inr testID" and "generate_status env = statusCode"
      and "poll_operation (operation_json env) wait 0 = Inr Errored
           \<or> poll_operation (operation_json env) wait 0 = Inr TimedOut"
  shows "map_sum id fst (getPDFreport env io_error folder name wait statusCode s) = Inr None"
    and "map_sum id fst (getCSVs L env io_error folder name sel conv wait statusCode s) = Inr None"
    and "map_sum id fst (getCapturedLogs env io_error folder name wait statusCode s) = Inr None"
  using assms by (auto simp: getPDFreport_def getCSVs_def getCapturedLogs_def)

lemma poll_operation_error:
  assumes "op_state (states k) = Some ''ERROR''" and "0 < wait"
  shows "poll_operation states wait k = Inr Errored"
  using assms by (subst poll_operation.simps) simp

lemma poll_operation_timeout:
  assumes "\<forall>j. \<exists>st. op_state (states j) = Some st \<and> st \<noteq> ''SUCCESS'' \<and> st \<noteq> ''ERROR''"
  shows "poll_operation states wait k = Inr TimedOut"
  using assms
proof (induction states wait k rule: poll_operation.induct)
  case (1 states wait k)
  from "1.prems" obtain st where
    st: "op_state (states k) = Some st" "st \<noteq> ''SUCCESS''" "st \<noteq> ''ERROR''"
    by blast
  show ?case
  proof (cases "0 < wait")
    case True
    with st "1.IH" [OF True st(1) st(2) st(3) "1.prems"] show ?thesis
      by (subst poll_operation.simps) simp
  next
    case False
    then show ?thesis by (subst poll_operation.simps) simp
  qed
qed

lemma artifacts_path_on_success:
  "map_sum id fst (getPDFreport csv_artifact_env (\<lambda>x. None) ''res'' ''tc'' 120 202
                     \<lparr>files = Map.empty, warnings = []\<rparr>) = Inr (Some ''res/tc.pdf'')"
  "map_sum id fst (getCapturedLogs csv_artifact_env (\<lambda>x. None) ''res'' ''tc'' 120 202
                     \<lparr>files = Map.empty, warnings = []\<rparr>) = Inr (Some ''res/tc-r.zip'')"
  "map_sum id fst (getCSVs plain_text_lib csv_artifact_env (\<lambda>x. None) ''res'' ''tc''
                     (PyList [''a'']) True 180 202
                     \<lparr>files = Map.empty, warnings = []\<rparr>) = Inr (Some ''res/tc_csv.zip'')"
  by (simp_all add: getPDFreport_def getCapturedLogs_def getCSVs_def csv_artifact_env_def
        poll_operation.simps [of _ 120] poll_operation.simps [of _ 180] write_file_def item_def
        replace_def convert_extracted_def convertCsvFileToJsonFile_def py_in_def Let_def
        warn_def)

text \<open>
  Claim C6 says that every retrieval returns the path of the file it wrote once the state
  \<^verbatim>\<open>SUCCESS\<close> is reached. \<^verbatim>\<open>getCSVs\<close> with its default \<^verbatim>\<open>convertCsvToJson=False\<close>, on an
  archive that holds a CSV file, reads the local \<^verbatim>\<open>allKpiJsonFolder\<close>, which is assigned only
  under \<^verbatim>\<open>if convertCsvToJson\<close>, and raises instead of returning the path.
\<close>

theorem getCSVs_default_raises_on_success:
  "getCSVs plain_text_lib csv_artifact_env (\<lambda>x. None) ''res'' ''tc'' (PyStr ''all'') False 180 202
     \<lparr>files = Map.empty, warnings = []\<rparr> = Inl UnboundLocalError"
  by (simp add: getCSVs_def csv_artifact_env_def poll_operation.simps [of _ 180] write_file_def
        convert_extracted_def item_def Let_def)

end
